theory Spec2Isabelle
  imports Main
begin

section \<open>Python values\<close>

text \<open>
  The client is dynamically typed Python over JSON payloads. A value is \<open>None\<close>, a
  bool, an int, a float, a string, a list or a dict. Floats are an uninterpreted carrier:
  nothing below computes with them, the operations on them are parameters
  (see \<open>env\<close>). A dict is an association list in insertion order, as Python's dict is;
  keys are compared structurally (the keys that occur are strings and \<open>None\<close>).
\<close>

typedecl pyfloat

datatype pyval =
    PNone
  | PBool bool
  | PInt int
  | PFloat pyfloat
  | PStr string
  | PList "pyval list"
  | PDict "(pyval \<times> pyval) list"

text \<open>The exceptions the code raises itself, and the built-in ones its operations raise.\<close>

datatype exn =
    TelenetServiceException string
  | BadCredentialsException string
  | AttributeError
  | TypeError
  | KeyError
  | IndexError
  | ValueError
  | UnboundLocalError
  | JSONDecodeError
  | TransportError string

subsection \<open>Dicts in insertion order\<close>

fun dict_get :: "('k \<times> 'v) list \<Rightarrow> 'k \<Rightarrow> 'v option" where
  "dict_get [] k = None"
| "dict_get ((k', v) # kvs) k = (if k' = k then Some v else dict_get kvs k)"

text \<open>\<open>d[k] = v\<close>: an existing key keeps its position, a new one goes last.\<close>

fun dict_set :: "'k \<Rightarrow> 'v \<Rightarrow> ('k \<times> 'v) list \<Rightarrow> ('k \<times> 'v) list" where
  "dict_set k v [] = [(k, v)]"
| "dict_set k v ((k', v') # kvs) =
     (if k' = k then (k', v) # kvs else (k', v') # dict_set k v kvs)"

text \<open>\<open>d.update(e)\<close>, \<open>d |= e\<close> and \<open>d | e\<close> on two dicts.\<close>

definition dict_update :: "('k \<times> 'v) list \<Rightarrow> ('k \<times> 'v) list \<Rightarrow> ('k \<times> 'v) list" where
  "dict_update d e = fold (\<lambda>(k, v) acc. dict_set k v acc) e d"

definition hashable :: "pyval \<Rightarrow> bool" where
  "hashable v = (case v of PList _ \<Rightarrow> False | PDict _ \<Rightarrow> False | _ \<Rightarrow> True)"

subsection \<open>Strings\<close>

definition digit_char :: "nat \<Rightarrow> char" where
  "digit_char d = ''0123456789'' ! d"

fun string_of_nat :: "nat \<Rightarrow> string" where
  "string_of_nat n =
     (if n < 10 then [digit_char n]
      else string_of_nat (n div 10) @ [digit_char (n mod 10)])"

declare string_of_nat.simps [simp del]

definition string_of_int :: "int \<Rightarrow> string" where
  "string_of_int i = (if i < 0 then CHR ''-'' # string_of_nat (nat (- i)) else string_of_nat (nat i))"

text \<open>\<open>sub in s\<close> on strings; \<open>s.find(sub) != -1\<close> is the same test.\<close>

fun contains :: "string \<Rightarrow> string \<Rightarrow> bool" where
  "contains sub [] = (sub = [])"
| "contains sub (c # s) = (take (length sub) (c # s) = sub \<or> contains sub s)"

text \<open>\<open>s.split(sep, maxsplit=k)\<close> for a separator of one character.\<close>

fun split_max :: "char \<Rightarrow> nat \<Rightarrow> string \<Rightarrow> string list" where
  "split_max sep 0 s = [s]"
| "split_max sep (Suc k) s =
     (if sep \<in> set s
      then takeWhile (\<lambda>c. c \<noteq> sep) s # split_max sep k (tl (dropWhile (\<lambda>c. c \<noteq> sep) s))
      else [s])"

text \<open>\<open>s.replace(old, new)\<close>, left to right, for a non-empty \<open>old\<close>
  (an empty \<open>old\<close>, which the code never passes, leaves \<open>s\<close> as it is here).\<close>

function replace_str :: "string \<Rightarrow> string \<Rightarrow> string \<Rightarrow> string" where
  "replace_str old new s =
     (if old = [] \<or> s = [] then s
      else if take (length old) s = old then new @ replace_str old new (drop (length old) s)
      else hd s # replace_str old new (tl s))"
  by pat_completeness auto
termination
  by (relation "measure (\<lambda>(old, new, s). length s)") auto

declare replace_str.simps [simp del]

text \<open>\<open>s.lower()\<close> and \<open>s.upper()\<close> on the ASCII letters.\<close>

definition ascii_lower :: "char \<Rightarrow> char" where
  "ascii_lower c =
     (case map_of (zip ''ABCDEFGHIJKLMNOPQRSTUVWXYZ'' ''abcdefghijklmnopqrstuvwxyz'') c of
        None \<Rightarrow> c | Some d \<Rightarrow> d)"

definition ascii_upper :: "char \<Rightarrow> char" where
  "ascii_upper c =
     (case map_of (zip ''abcdefghijklmnopqrstuvwxyz'' ''ABCDEFGHIJKLMNOPQRSTUVWXYZ'') c of
        None \<Rightarrow> c | Some d \<Rightarrow> d)"

subsection \<open>Operations on values\<close>

text \<open>\<open>v.get(k)\<close>: only a dict has the method.\<close>

definition py_get :: "pyval \<Rightarrow> string \<Rightarrow> exn + pyval" where
  "py_get v k =
     (case v of
        PDict kvs \<Rightarrow> Inr (case dict_get kvs (PStr k) of None \<Rightarrow> PNone | Some x \<Rightarrow> x)
      | _ \<Rightarrow> Inl AttributeError)"

text \<open>\<open>k in v\<close> for a string \<open>k\<close>: a key of a dict, an element of a list, a substring
  of a string; anything else is not iterable.\<close>

definition py_contains :: "pyval \<Rightarrow> string \<Rightarrow> exn + bool" where
  "py_contains v k =
     (case v of
        PDict kvs \<Rightarrow> Inr (dict_get kvs (PStr k) \<noteq> None)
      | PList xs \<Rightarrow> Inr (PStr k \<in> set xs)
      | PStr s \<Rightarrow> Inr (contains k s)
      | _ \<Rightarrow> Inl TypeError)"

definition py_len :: "pyval \<Rightarrow> exn + nat" where
  "py_len v =
     (case v of
        PDict kvs \<Rightarrow> Inr (length kvs)
      | PList xs \<Rightarrow> Inr (length xs)
      | PStr s \<Rightarrow> Inr (length s)
      | _ \<Rightarrow> Inl TypeError)"

text \<open>\<open>for x in v\<close>: the elements of a list, the keys of a dict, the characters of a
  string.\<close>

definition py_iter :: "pyval \<Rightarrow> exn + pyval list" where
  "py_iter v =
     (case v of
        PList xs \<Rightarrow> Inr xs
      | PDict kvs \<Rightarrow> Inr (map fst kvs)
      | PStr s \<Rightarrow> Inr (map (\<lambda>c. PStr [c]) s)
      | _ \<Rightarrow> Inl TypeError)"

text \<open>\<open>v[0]\<close>.\<close>

definition py_first :: "pyval \<Rightarrow> exn + pyval" where
  "py_first v =
     (case v of
        PList xs \<Rightarrow> (case xs of [] \<Rightarrow> Inl IndexError | x # _ \<Rightarrow> Inr x)
      | PStr s \<Rightarrow> (case s of [] \<Rightarrow> Inl IndexError | c # _ \<Rightarrow> Inr (PStr [c]))
      | PDict kvs \<Rightarrow> (case dict_get kvs (PInt 0) of None \<Rightarrow> Inl KeyError | Some x \<Rightarrow> Inr x)
      | _ \<Rightarrow> Inl TypeError)"

text \<open>\<open>v.lower()\<close> and \<open>v.upper()\<close>: string methods.\<close>

definition py_lower :: "pyval \<Rightarrow> exn + string" where
  "py_lower v = (case v of PStr s \<Rightarrow> Inr (map ascii_lower s) | _ \<Rightarrow> Inl AttributeError)"

definition py_upper :: "pyval \<Rightarrow> exn + string" where
  "py_upper v = (case v of PStr s \<Rightarrow> Inr (map ascii_upper s) | _ \<Rightarrow> Inl AttributeError)"

text \<open>Sequencing of computations that may raise.\<close>

definition bind_exn :: "exn + 'a \<Rightarrow> ('a \<Rightarrow> exn + 'b) \<Rightarrow> exn + 'b" where
  "bind_exn r f = (case r of Inl e \<Rightarrow> Inl e | Inr x \<Rightarrow> f x)"

section \<open>The HTTP session and the parameters of the client\<close>

datatype http_verb = GET | POST

record http_request =
  verb :: http_verb
  url :: pyval
  form :: pyval

text \<open>
  A response of the \<open>requests\<close> library: \<open>resp_json\<close> is what \<open>response.json()\<close>
  returns (\<open>None\<close> when the body does not parse, where it raises), \<open>set_cookies\<close> the
  cookies the exchange stored in the session's jar.
\<close>

record response =
  status_code :: int
  resp_text :: string
  resp_json :: "pyval option"
  resp_url :: string
  set_cookies :: "(string \<times> string) list"

text \<open>\<open>request\<close> returns a response or \<open>False\<close>, the soft-failure sentinel.\<close>

datatype resp_or_false = RFalse | Resp response

text \<open>
  What client.py imports and src/ does not hold is a parameter:
  \<^item> \<open>transport\<close>: \<open>session.get\<close> and \<open>session.post\<close> against the portal; the number
    is the count of requests the session has sent before, so the portal may answer
    the same request differently over time; it may raise;
  \<^item> \<open>CONNECTION_RETRY\<close> of const.py;
  \<^item> the helpers of utils.py, each of which may raise;
  \<^item> Python's built-ins where they meet a float or print a container
    (\<open>str_other\<close>, \<open>int_of\<close>, \<open>float_add\<close>, \<open>float_gt0\<close>);
  \<^item> the two places that read the wall clock and compute with floats and dates:
    \<open>days_until\<close> is \<open>(strptime(next_billing_date, DATETIME_FORMAT) - now()).days\<close>,
    and \<open>internet_usage_attributes\<close> is lines 435-518 of create_extra_sensors, from
    (identifier, product_usage, billcycle, product_daily_usage, product_specs, language)
    to the pair of \<open>usage_pct\<close> and \<open>attributes\<close>.
\<close>

record env =
  transport :: "nat \<Rightarrow> http_request \<Rightarrow> exn + response"
  CONNECTION_RETRY :: int
  format_entity_name :: "string \<Rightarrow> string"
  str_to_float :: "pyval \<Rightarrow> exn + pyval"
  float_to_timestring :: "pyval \<Rightarrow> pyval \<Rightarrow> exn + pyval"
  get_json_dict_path :: "pyval \<Rightarrow> string \<Rightarrow> exn + pyval"
  get_localized :: "pyval \<Rightarrow> pyval \<Rightarrow> exn + pyval"
  clean_ipv6 :: "pyval \<Rightarrow> exn + pyval"
  str_other :: "pyval \<Rightarrow> string"
  int_of :: "pyval \<Rightarrow> exn + int"
  float_add :: "pyval \<Rightarrow> pyval \<Rightarrow> pyval"
  float_gt0 :: "pyval \<Rightarrow> bool"
  days_until :: "pyval \<Rightarrow> exn + pyval"
  internet_usage_attributes ::
    "pyval \<Rightarrow> pyval \<Rightarrow> pyval \<Rightarrow> pyval \<Rightarrow> pyval \<Rightarrow> pyval \<Rightarrow> exn + (pyval \<times> (pyval \<times> pyval) list)"

text \<open>\<open>str(v)\<close>, as an f-string formats \<open>{v}\<close>.\<close>

definition py_str :: "env \<Rightarrow> pyval \<Rightarrow> string" where
  "py_str E v =
     (case v of
        PStr s \<Rightarrow> s
      | PNone \<Rightarrow> ''None''
      | PBool b \<Rightarrow> (if b then ''True'' else ''False'')
      | PInt i \<Rightarrow> string_of_int i
      | _ \<Rightarrow> str_other E v)"

text \<open>\<open>int(v)\<close>.\<close>

definition py_int :: "env \<Rightarrow> pyval \<Rightarrow> exn + int" where
  "py_int E v =
     (case v of
        PInt i \<Rightarrow> Inr i
      | PBool b \<Rightarrow> Inr (if b then 1 else 0)
      | PStr s \<Rightarrow> int_of E v
      | PFloat f \<Rightarrow> int_of E v
      | _ \<Rightarrow> Inl TypeError)"

text \<open>\<open>v > 0\<close>.\<close>

definition py_gt0 :: "env \<Rightarrow> pyval \<Rightarrow> exn + bool" where
  "py_gt0 E v =
     (case v of
        PInt i \<Rightarrow> Inr (0 < i)
      | PBool b \<Rightarrow> Inr b
      | PFloat f \<Rightarrow> Inr (float_gt0 E v)
      | _ \<Rightarrow> Inl TypeError)"

text \<open>\<open>a + b\<close>, as \<open>total_cost += x\<close> computes it.\<close>

definition is_number :: "pyval \<Rightarrow> bool" where
  "is_number v = (case v of PInt _ \<Rightarrow> True | PBool _ \<Rightarrow> True | PFloat _ \<Rightarrow> True | _ \<Rightarrow> False)"

definition int_value :: "pyval \<Rightarrow> int option" where
  "int_value v = (case v of PInt i \<Rightarrow> Some i | PBool b \<Rightarrow> Some (if b then 1 else 0) | _ \<Rightarrow> None)"

definition py_add :: "env \<Rightarrow> pyval \<Rightarrow> pyval \<Rightarrow> exn + pyval" where
  "py_add E a b =
     (case (int_value a, int_value b) of
        (Some i, Some j) \<Rightarrow> Inr (PInt (i + j))
      | _ \<Rightarrow>
        (if is_number a \<and> is_number b then Inr (float_add E a b)
         else (case (a, b) of
                 (PStr s, PStr t) \<Rightarrow> Inr (PStr (s @ t))
               | (PList xs, PList ys) \<Rightarrow> Inr (PList (xs @ ys))
               | _ \<Rightarrow> Inl TypeError)))"

subsection \<open>The product record (models.py)\<close>

text \<open>
  Modelled from the spec: the declaration of \<open>TelenetProduct\<close> that client.py is written
  against. models.py under src/ declares the class without the fields
  \<open>product_plan_label\<close>, \<open>product_address\<close>, \<open>product_price\<close> and
  \<open>native_unit_of_measurement\<close>, which the constructor calls of client.py pass, and
  annotates \<open>product_info\<close>, \<open>product_subscription_info\<close> and
  \<open>product_extra_attributes\<close> as lists, where client.py stores and reads mappings
  (\<open>len\<close>, \<open>in\<close>, \<open>.get\<close>, \<open>|=\<close>). The record has the fields of models.py and the
  four that client.py passes. The three blob fields and the address default to the empty
  mapping (spec: "a subscription-info blob (raw plan record), an extra-attributes
  mapping"), the price to \<open>None\<close> ("optional numeric/string price"). The other defaults
  are those of models.py; every constructor call of client.py passes
  \<open>product_identifier\<close>. No theorem below rests on a default: \<open>|=\<close> is modelled on any
  value and raises TypeError on one that is not a mapping.
\<close>

record TelenetProduct =
  product_name :: pyval
  product_key :: pyval
  product_description_key :: pyval
  product_suffix :: pyval
  product_state :: pyval
  product_identifier :: pyval
  product_type :: pyval
  product_description :: pyval
  product_specurl :: pyval
  product_info :: pyval
  product_plan_identifier :: pyval
  product_subscription_info :: pyval
  product_extra_attributes :: pyval
  product_extra_sensor :: bool
  product_ignore_extra_sensor :: bool
  product_plan_label :: pyval
  product_address :: pyval
  product_price :: pyval
  native_unit_of_measurement :: pyval

definition TelenetProduct_default :: TelenetProduct where
  "TelenetProduct_default =
     \<lparr> product_name = PStr [], product_key = PStr [], product_description_key = PStr [],
       product_suffix = PStr [], product_state = PStr ''Inactive'',
       product_identifier = PStr [], product_type = PStr [], product_description = PStr [],
       product_specurl = PStr [], product_info = PDict [],
       product_plan_identifier = PStr [], product_subscription_info = PDict [],
       product_extra_attributes = PDict [], product_extra_sensor = False,
       product_ignore_extra_sensor = False, product_plan_label = PStr [],
       product_address = PDict [], product_price = PNone,
       native_unit_of_measurement = PNone \<rparr>"

record TelenetEnvironment =
  ocapi :: string
  openid :: string
  referer :: string
  x_alt_referer :: string

subsection \<open>The client's state\<close>

text \<open>
  The fields of \<open>TelenetClient.__init__\<close>; \<open>headers\<close> and \<open>cookies\<close> are those of the
  \<open>requests\<close> session, and \<open>sent\<close> is the trace of the requests the session has sent,
  oldest first (the model's only addition: it makes "no request is issued" a statement
  about the state).
\<close>

record client =
  username :: pyval
  password :: pyval
  language :: pyval
  environment :: TelenetEnvironment
  headers :: "(pyval \<times> pyval) list"
  cookies :: "(string \<times> string) list"
  sent :: "http_request list"
  all_products :: "(pyval \<times> TelenetProduct) list"
  product_types :: "pyval list"
  user_details :: pyval
  plan_products :: "(pyval \<times> pyval) list"
  addresses :: "(pyval \<times> pyval) list"
  request_error :: pyval
  total_cost :: pyval

text \<open>
  A method of the client takes the state and returns its result or the exception it
  raised, with the state it left; \<open>None\<close> when the call depth \<open>request\<close> is given does
  not suffice (it does not return within that depth).
\<close>

type_synonym 'a run = "client \<Rightarrow> ((exn + 'a) \<times> client) option"

definition ret :: "'a \<Rightarrow> 'a run" where
  "ret x c = Some (Inr x, c)"

definition raise_exn :: "exn \<Rightarrow> 'a run" where
  "raise_exn e c = Some (Inl e, c)"

definition pure_run :: "exn + 'a \<Rightarrow> 'a run" where
  "pure_run r c = Some (r, c)"

definition bind_run :: "'a run \<Rightarrow> ('a \<Rightarrow> 'b run) \<Rightarrow> 'b run" where
  "bind_run m f c =
     (case m c of
        None \<Rightarrow> None
      | Some (Inl e, c') \<Rightarrow> Some (Inl e, c')
      | Some (Inr x, c') \<Rightarrow> f x c')"

definition modify :: "(client \<Rightarrow> client) \<Rightarrow> unit run" where
  "modify f c = Some (Inr (), f c)"

section \<open>The request dispatcher and the login handshake\<close>

definition make_request :: "pyval \<Rightarrow> pyval \<Rightarrow> http_request" where
  "make_request u d = \<lparr> verb = (if d = PNone then GET else POST), url = u, form = d \<rparr>"

text \<open>The session after an exchange: the request is in the trace, the jar has the
  cookies of the response.\<close>

definition received :: "client \<Rightarrow> http_request \<Rightarrow> response \<Rightarrow> client" where
  "received c rq r =
     c\<lparr> sent := sent c @ [rq], cookies := dict_update (cookies c) (set_cookies r) \<rparr>"

text \<open>\<open>self.session.headers["X-TOKEN-XSRF"] = self.session.cookies.get("TOKEN-XSRF")\<close>\<close>

definition mirror_token :: "client \<Rightarrow> client" where
  "mirror_token c =
     c\<lparr> headers := dict_set (PStr ''X-TOKEN-XSRF'')
          (case dict_get (cookies c) ''TOKEN-XSRF'' of None \<Rightarrow> PNone | Some t \<Rightarrow> PStr t)
          (headers c) \<rparr>"

definition unexpected_status_message :: "string \<Rightarrow> int \<Rightarrow> response \<Rightarrow> string" where
  "unexpected_status_message caller expected r =
     ''['' @ caller @ ''] Expecting HTTP '' @ string_of_int expected @ '' | Response HTTP ''
       @ string_of_int (status_code r) @ '', Response: '' @ resp_text r @ '', Url: '' @ resp_url r"

text \<open>
  Lines 102-113: what a 403 that was not expected leads to. A body whose text holds
  \<open>code\<close> is parsed: an error code other than OCAPI-ERR-667 is the soft failure, the
  code OCAPI-ERR-667 raises the service exception with the body's cause. A body without
  \<open>code\<close> goes on to the re-login.
\<close>

datatype forbidden = Forbidden_Soft pyval | Forbidden_Raise exn | Forbidden_Retry

definition forbidden_403 :: "env \<Rightarrow> pyval \<Rightarrow> response \<Rightarrow> forbidden" where
  "forbidden_403 E uname r =
     (if contains ''code'' (resp_text r) then
        (case resp_json r of
           None \<Rightarrow> Forbidden_Raise JSONDecodeError
         | Some j \<Rightarrow>
             (case py_get j ''code'' of
                Inl e \<Rightarrow> Forbidden_Raise e
              | Inr code \<Rightarrow>
                  if code \<noteq> PStr ''OCAPI-ERR-667'' then Forbidden_Soft j
                  else (case py_get j ''cause'' of
                          Inl e \<Rightarrow> Forbidden_Raise e
                        | Inr cause \<Rightarrow>
                            Forbidden_Raise (TelenetServiceException
                              (py_str E cause @ '' for '' @ py_str E uname)))))
      else Forbidden_Retry)"

text \<open>
  \<open>login\<close> and \<open>request\<close> call each other. \<open>login_with\<close> is the body of \<open>login\<close> over the
  \<open>request\<close> it calls, so that \<open>request\<close> is a primitive recursion on the call depth.
  The type of \<open>request\<close> after the depth: url, caller, data, expected, retrying,
  connection_retry_left (the \<open>log\<close> flag only prints). Every call site passes
  \<open>None\<close> or \<open>200\<close> as \<open>expected\<close>.
\<close>

type_synonym request_fn =
  "pyval \<Rightarrow> string \<Rightarrow> pyval \<Rightarrow> int option \<Rightarrow> bool \<Rightarrow> int \<Rightarrow> resp_or_false run"

datatype probe = Authenticated pyval | Tokens response

text \<open>Lines 129-151: the loop that fetches state and nonce.\<close>

function login_tokens :: "env \<Rightarrow> request_fn \<Rightarrow> int \<Rightarrow> probe run" where
  "login_tokens E req token_fetch_count c =
     (case req (PStr (ocapi (environment c) @ ''/oauth/userdetails'')) ''[TelenetClient|login]''
             PNone None False (CONNECTION_RETRY E) c of
        None \<Rightarrow> None
      | Some (Inl e, c1) \<Rightarrow> Some (Inl e, c1)
      | Some (Inr RFalse, c1) \<Rightarrow> Some (Inl AttributeError, c1)
      | Some (Inr (Resp r), c1) \<Rightarrow>
          if status_code r = 200 then
            (case resp_json r of
               None \<Rightarrow> Some (Inl JSONDecodeError, c1)
             | Some j \<Rightarrow> Some (Inr (Authenticated j), c1))
          else if status_code r \<noteq> 401 \<and> status_code r \<noteq> 403 then
            Some (Inl (TelenetServiceException
              (''HTTP '' @ string_of_int (status_code r) @ '' error while authenticating '' @ resp_url r)), c1)
          else if token_fetch_count > CONNECTION_RETRY E then
            Some (Inl (TelenetServiceException
              (''HTTP 401 not returning the tokens for '' @ resp_url r)), c1)
          else if length (split_max CHR '','' 2 (resp_text r)) \<noteq> 2 then
            login_tokens E req (token_fetch_count + 1) c1
          else Some (Inr (Tokens r), c1))"
  by pat_completeness auto
termination
  by (relation "measure (\<lambda>(E, req, n, c). nat (CONNECTION_RETRY E + 1 - n))") auto

declare login_tokens.simps [simp del]

definition authorize_url :: "string \<Rightarrow> string \<Rightarrow> string \<Rightarrow> string" where
  "authorize_url base state nonce =
     base @ ''/oauth/authorize?client_id=ocapi&response_type=code&claims={\"id_token\":{\"http://telenet.be/claims/roles\":null,\"http://telenet.be/claims/licenses\":null}}&lang=nl&state=''
       @ state @ ''&nonce='' @ nonce @ ''&prompt=login''"

text \<open>Lines 175-187: the user details after the credentials were accepted.\<close>

definition login_user_details :: "env \<Rightarrow> request_fn \<Rightarrow> pyval run" where
  "login_user_details E req c =
     (case req (PStr ''https://api.prd.telenet.be/ocapi/oauth/userdetails'')
             ''[TelenetClient|login|user_details]'' PNone (Some 200) False (CONNECTION_RETRY E) c of
        None \<Rightarrow> None
      | Some (Inl e, c1) \<Rightarrow> Some (Inl e, c1)
      | Some (Inr RFalse, c1) \<Rightarrow> Some (Inl AttributeError, c1)
      | Some (Inr (Resp r), c1) \<Rightarrow>
          (case resp_json r of
             None \<Rightarrow> Some (Inl JSONDecodeError, c1)
           | Some ud \<Rightarrow>
               (case py_contains ud ''customer_number'' of
                  Inl e \<Rightarrow> Some (Inl e, c1)
                | Inr present \<Rightarrow>
                    if \<not> present then
                      Some (Inl (BadCredentialsException
                        (''HTTP '' @ string_of_int (status_code r) @ '' Missing customer number'')), c1)
                    else Some (Inr ud, c1\<lparr> user_details := ud \<rparr>))))"

text \<open>Lines 162-174: the credential POST. A soft failure here has no \<open>url\<close>.\<close>

definition login_credentials :: "env \<Rightarrow> request_fn \<Rightarrow> pyval run" where
  "login_credentials E req c =
     (case req (PStr (openid (environment c) @ ''/login.do'')) ''[TelenetClient|login|login.do]''
             (PDict [(PStr ''j_username'', username c), (PStr ''j_password'', password c),
                     (PStr ''rememberme'', PBool True)])
             (Some 200) False (CONNECTION_RETRY E) c of
        None \<Rightarrow> None
      | Some (Inl e, c1) \<Rightarrow> Some (Inl e, c1)
      | Some (Inr RFalse, c1) \<Rightarrow> Some (Inl AttributeError, c1)
      | Some (Inr (Resp r), c1) \<Rightarrow>
          if contains ''authentication_error'' (resp_url r) then
            Some (Inl (BadCredentialsException (resp_text r)), c1)
          else login_user_details E req (mirror_token c1))"

text \<open>Lines 152-161: the authorize step. Its error branch calls \<open>response.text()\<close>,
  a string, which is the TypeError.\<close>

definition login_authorize :: "env \<Rightarrow> request_fn \<Rightarrow> string list \<Rightarrow> pyval run" where
  "login_authorize E req tokens c =
     (case tokens of
        [state, nonce] \<Rightarrow>
          (case req (PStr (authorize_url (openid (environment c)) state nonce))
                  ''[TelenetClient|login|authorize]'' PNone None False (CONNECTION_RETRY E) c of
             None \<Rightarrow> None
           | Some (Inl e, c1) \<Rightarrow> Some (Inl e, c1)
           | Some (Inr RFalse, c1) \<Rightarrow> Some (Inl AttributeError, c1)
           | Some (Inr (Resp r), c1) \<Rightarrow>
               if status_code r \<noteq> 200 \<or> \<not> contains ''openid/login'' (resp_url r) then
                 Some (Inl TypeError, c1)
               else login_credentials E req c1)
      | _ \<Rightarrow> Some (Inl ValueError, c))"

definition login_with :: "env \<Rightarrow> request_fn \<Rightarrow> pyval run" where
  "login_with E req c =
     (case login_tokens E req 0 c of
        None \<Rightarrow> None
      | Some (Inl e, c1) \<Rightarrow> Some (Inl e, c1)
      | Some (Inr (Authenticated j), c1) \<Rightarrow> Some (Inr j, c1)
      | Some (Inr (Tokens r), c1) \<Rightarrow>
          login_authorize E req (split_max CHR '','' 2 (resp_text r)) c1)"

text \<open>Lines 66-123.\<close>

primrec request :: "env \<Rightarrow> nat \<Rightarrow> request_fn" where
  "request E 0 = (\<lambda>u caller data expected retrying connection_retry_left c. None)"
| "request E (Suc n) = (\<lambda>u caller data expected retrying connection_retry_left c.
     (case transport E (length (sent c)) (make_request u data) of
        Inl e \<Rightarrow> Some (Inl e, c\<lparr> sent := sent c @ [make_request u data] \<rparr>)
      | Inr r \<Rightarrow>
          if expected \<noteq> None \<and> Some (status_code r) \<noteq> expected then
            if status_code r = 404 then
              (case resp_json r of
                 None \<Rightarrow> Some (Inl JSONDecodeError, received c (make_request u data) r)
               | Some j \<Rightarrow>
                   Some (Inr RFalse, (received c (make_request u data) r)\<lparr> request_error := j \<rparr>))
            else if status_code r \<noteq> 403 \<and> status_code r \<noteq> 401 \<and> status_code r \<noteq> 500
                    \<and> connection_retry_left > 0 \<and> \<not> retrying then
              Some (Inl (TelenetServiceException
                      (unexpected_status_message caller (the expected) r)),
                    received c (make_request u data) r)
            else
              (case (if status_code r = 403
                     then forbidden_403 E (username c) r else Forbidden_Retry) of
                 Forbidden_Soft j \<Rightarrow>
                   Some (Inr RFalse, (received c (make_request u data) r)\<lparr> request_error := j \<rparr>)
               | Forbidden_Raise e \<Rightarrow> Some (Inl e, received c (make_request u data) r)
               | Forbidden_Retry \<Rightarrow>
                   (case login_with E (request E n) (received c (make_request u data) r) of
                      None \<Rightarrow> None
                    | Some (Inl e, c2) \<Rightarrow> Some (Inl e, c2)
                    | Some (Inr ud, c2) \<Rightarrow>
                        (case request E n u caller data expected True (connection_retry_left - 1) c2 of
                           None \<Rightarrow> None
                         | Some (Inl e, c3) \<Rightarrow> Some (Inl e, c3)
                         | Some (Inr r', c3) \<Rightarrow> Some (Inr r', mirror_token c3))))
          else Some (Inr (Resp r), mirror_token (received c (make_request u data) r))))"

text \<open>Lines 125-187.\<close>

definition login :: "env \<Rightarrow> nat \<Rightarrow> pyval run" where
  "login E n = login_with E (request E n)"

section \<open>Endpoints\<close>

text \<open>\<open>response.json()\<close>\<close>

definition json_of :: "response \<Rightarrow> pyval run" where
  "json_of r = (case resp_json r of None \<Rightarrow> raise_exn JSONDecodeError | Some j \<Rightarrow> ret j)"

text \<open>The tail most endpoint methods share:
  \<open>if response is False: return False\<close>, then \<open>return response.json()\<close>.\<close>

definition false_or_json :: "resp_or_false \<Rightarrow> pyval run" where
  "false_or_json response = (case response of RFalse \<Rightarrow> ret (PBool False) | Resp r \<Rightarrow> json_of r)"

text \<open>Lines 1004-1009.\<close>

definition product_details :: "env \<Rightarrow> nat \<Rightarrow> pyval \<Rightarrow> pyval run" where
  "product_details E n u =
     bind_run (request E n u ''product_details'' PNone (Some 200) False (CONNECTION_RETRY E))
       false_or_json"

text \<open>Lines 1027-1051.\<close>

definition bill_cycles :: "env \<Rightarrow> nat \<Rightarrow> pyval \<Rightarrow> pyval \<Rightarrow> int \<Rightarrow> pyval run" where
  "bill_cycles E n ptype identifier count =
     bind_run (request E n
        (PStr (''https://api.prd.telenet.be/ocapi/public/api/billing-service/v1/account/products/''
               @ py_str E identifier @ ''/billcycle-details?producttype='' @ py_str E ptype
               @ ''&count='' @ string_of_int count))
        ''[TelenetClient|bill_cycles]'' PNone (Some 200) False (CONNECTION_RETRY E))
     (\<lambda>response. case response of
        RFalse \<Rightarrow> ret (PBool False)
      | Resp r \<Rightarrow>
          bind_run (json_of r) (\<lambda>j.
          bind_run (pure_run (py_get j ''billCycles'')) (\<lambda>cycles.
          bind_run (pure_run (py_first cycles)) (\<lambda>cycle.
          bind_run (pure_run (py_get cycle ''startDate'')) (\<lambda>start_date.
          bind_run (pure_run (py_get cycle ''endDate'')) (\<lambda>end_date.
          if ptype = PStr ''internet''
          then ret (PDict [(PStr ''start_date'', start_date), (PStr ''end_date'', end_date),
                           (PStr ''cycles'', cycles)])
          else ret (PDict [(PStr ''start_date'', start_date), (PStr ''end_date'', end_date)])))))))"

text \<open>Lines 1053-1063.\<close>

definition product_usage :: "env \<Rightarrow> nat \<Rightarrow> pyval \<Rightarrow> pyval \<Rightarrow> pyval \<Rightarrow> pyval \<Rightarrow> pyval run" where
  "product_usage E n ptype identifier start_date end_date =
     bind_run (request E n
        (PStr (''https://api.prd.telenet.be/ocapi/public/api/product-service/v1/products/''
               @ py_str E ptype @ ''/'' @ py_str E identifier @ ''/usage?fromDate=''
               @ py_str E start_date @ ''&toDate='' @ py_str E end_date))
        ''[TelenetClient|product_usage]'' PNone (Some 200) False (CONNECTION_RETRY E))
       false_or_json"

text \<open>Lines 1065-1079: no status is expected, so \<open>request\<close> hands every response over.\<close>

definition product_daily_usage ::
  "env \<Rightarrow> nat \<Rightarrow> pyval \<Rightarrow> pyval \<Rightarrow> pyval \<Rightarrow> pyval \<Rightarrow> pyval \<Rightarrow> pyval run" where
  "product_daily_usage E n ptype identifier bill_cycle from_date to_date =
     bind_run (request E n
        (PStr (''https://api.prd.telenet.be/ocapi/public/api/product-service/v1/products/''
               @ py_str E ptype @ ''/'' @ py_str E identifier @ ''/dailyusage?billcycle=''
               @ py_str E bill_cycle @ ''&fromDate='' @ py_str E from_date @ ''&toDate=''
               @ py_str E to_date))
        ''[TelenetClient|product_daily_usage]'' PNone None False (CONNECTION_RETRY E))
     (\<lambda>response. case response of
        RFalse \<Rightarrow> ret (PBool False)
      | Resp r \<Rightarrow> if status_code r \<noteq> 200 then ret (PDict []) else json_of r)"

text \<open>Lines 1100-1110.\<close>

definition mobile_usage :: "env \<Rightarrow> nat \<Rightarrow> pyval \<Rightarrow> pyval run" where
  "mobile_usage E n identifier =
     bind_run (request E n
        (PStr (''https://api.prd.telenet.be/ocapi/public/api/mobile-service/v3/mobilesubscriptions/''
               @ py_str E identifier @ ''/usages''))
        ''[TelenetClient|mobile_usage]'' PNone (Some 200) False (CONNECTION_RETRY E))
       false_or_json"

text \<open>Lines 1112-1130.\<close>

definition mobile_bundle_usage :: "env \<Rightarrow> nat \<Rightarrow> pyval \<Rightarrow> pyval \<Rightarrow> pyval run" where
  "mobile_bundle_usage E n bundle_identifier line_identifier =
     bind_run
       (if line_identifier \<noteq> PNone then
          request E n
            (PStr (''https://api.prd.telenet.be/ocapi/public/api/mobile-service/v3/mobilesubscriptions/''
                   @ py_str E bundle_identifier @ ''/usages?type=bundle&lineIdentifier=''
                   @ py_str E line_identifier))
            ''[TelenetClient|mobile_bundle_usage line_identifier]'' PNone (Some 200) False
            (CONNECTION_RETRY E)
        else
          request E n
            (PStr (''https://api.prd.telenet.be/ocapi/public/api/mobile-service/v3/mobilesubscriptions/''
                   @ py_str E bundle_identifier @ ''/usages?type=bundle''))
            ''[TelenetClient|mobile_bundle_usage bundle]'' PNone (Some 200) False
            (CONNECTION_RETRY E))
       false_or_json"

text \<open>Lines 1132-1142.\<close>

definition modems :: "env \<Rightarrow> nat \<Rightarrow> pyval \<Rightarrow> pyval run" where
  "modems E n identifier =
     bind_run (request E n
        (PStr (''https://api.prd.telenet.be/ocapi/public/api/resource-service/v1/modems?productIdentifier=''
               @ py_str E identifier))
        ''[TelenetClient|modems]'' PNone (Some 200) False (CONNECTION_RETRY E))
       false_or_json"

text \<open>Lines 1144-1154.\<close>

definition network_topology :: "env \<Rightarrow> nat \<Rightarrow> pyval \<Rightarrow> pyval run" where
  "network_topology E n mac =
     bind_run (request E n
        (PStr (''https://api.prd.telenet.be/ocapi/public/api/resource-service/v1/network-topology/''
               @ py_str E mac @ ''?withClients=true''))
        ''[TelenetClient|network_topology]'' PNone (Some 200) False (CONNECTION_RETRY E))
       false_or_json"

text \<open>Lines 1156-1166.\<close>

definition wireless_settings :: "env \<Rightarrow> nat \<Rightarrow> pyval \<Rightarrow> pyval \<Rightarrow> pyval run" where
  "wireless_settings E n mac identifier =
     bind_run (request E n
        (PStr (''https://api.prd.telenet.be/ocapi/public/api/resource-service/v1/modems/''
               @ py_str E mac
               @ ''/wireless-settings?withmetadata=true&withwirelessservice=true&productidentifier=''
               @ py_str E identifier))
        ''[TelenetClient|wireless_settings]'' PNone None False (CONNECTION_RETRY E))
     (\<lambda>response. case response of
        RFalse \<Rightarrow> ret (PBool False)
      | Resp r \<Rightarrow> if status_code r = 500 then ret (PBool False) else json_of r)"

text \<open>Lines 1168-1178.\<close>

definition device_details :: "env \<Rightarrow> nat \<Rightarrow> pyval \<Rightarrow> pyval \<Rightarrow> pyval run" where
  "device_details E n ptype identifier =
     bind_run (request E n
        (PStr (''https://api.prd.telenet.be/ocapi/public/api/product-service/v1/products/''
               @ py_str E ptype @ ''/'' @ py_str E identifier @ ''/devicedetails''))
        ''[TelenetClient|device_details]'' PNone (Some 200) False (CONNECTION_RETRY E))
       false_or_json"

text \<open>Lines 1180-1196. A cached record that is \<open>None\<close> counts as absent; a soft failure
  is returned and not cached.\<close>

definition address_url :: "env \<Rightarrow> pyval \<Rightarrow> pyval" where
  "address_url E address_id =
     PStr (''https://api.prd.telenet.be/ocapi/public/api/contact-service/v1/contact/addresses/''
           @ py_str E address_id)"

definition address :: "env \<Rightarrow> nat \<Rightarrow> pyval \<Rightarrow> pyval run" where
  "address E n address_id c =
     (if address_id = PNone then ret (PDict []) c
      else case py_len address_id of
        Inl e \<Rightarrow> raise_exn e c
      | Inr l \<Rightarrow>
          if l = 0 then ret (PDict []) c
          else if \<not> hashable address_id then raise_exn TypeError c
          else if dict_get (addresses c) address_id \<noteq> None
                  \<and> dict_get (addresses c) address_id \<noteq> Some PNone
          then ret (the (dict_get (addresses c) address_id)) c
          else
            bind_run (request E n (address_url E address_id) ''[TelenetClient|address]'' PNone
                        (Some 200) False (CONNECTION_RETRY E))
            (\<lambda>response. case response of
               RFalse \<Rightarrow> ret (PBool False)
             | Resp r \<Rightarrow>
                 bind_run (json_of r) (\<lambda>j.
                 bind_run (modify (\<lambda>c'. c'\<lparr> addresses := dict_set address_id j (addresses c') \<rparr>))
                   (\<lambda>_. ret j))) c)"

section \<open>Product discovery\<close>

text \<open>Lines 189-193.\<close>

definition add_product_type :: "pyval \<Rightarrow> client \<Rightarrow> client" where
  "add_product_type ptype c =
     (if ptype \<notin> set (product_types c) then c\<lparr> product_types := product_types c @ [ptype] \<rparr>
      else c)"

text \<open>\<open>d.get(k)\<close> on the items of a dict.\<close>

definition dget :: "(pyval \<times> pyval) list \<Rightarrow> string \<Rightarrow> pyval" where
  "dget kvs k = (case dict_get kvs (PStr k) of None \<Rightarrow> PNone | Some x \<Rightarrow> x)"

text \<open>Lines 209-220: the sales price of the spec sheet; any exception leaves \<open>None\<close>.\<close>

definition sales_price :: "env \<Rightarrow> pyval \<Rightarrow> pyval" where
  "sales_price E info =
     (case bind_exn (py_get info ''characteristics'') (\<lambda>ch.
           bind_exn (py_get ch ''salespricevatincl'') (\<lambda>salespricevatincl.
           bind_exn (py_get salespricevatincl ''value'') (\<lambda>v.
           bind_exn (str_to_float E v) (\<lambda>price.
           bind_exn (py_gt0 E price) (\<lambda>positive.
           Inr (if positive then salespricevatincl else PNone)))))) of
        Inl e \<Rightarrow> PNone
      | Inr p \<Rightarrow> p)"

text \<open>Lines 224-229: the localized name, or the label when anything raises.\<close>

definition localized_state :: "env \<Rightarrow> pyval \<Rightarrow> pyval \<Rightarrow> pyval \<Rightarrow> pyval" where
  "localized_state E lang info label =
     (case bind_exn (py_get info ''localizedcontent'') (\<lambda>content.
           bind_exn (get_localized E lang content) (\<lambda>localized.
           py_get localized ''name'')) of
        Inl e \<Rightarrow> label
      | Inr name \<Rightarrow> name)"

text \<open>Lines 195-245. \<open>state_prop\<close> is not used by the code.\<close>

definition add_product :: "env \<Rightarrow> nat \<Rightarrow> pyval \<Rightarrow> pyval \<Rightarrow> string \<Rightarrow> pyval \<Rightarrow> bool run" where
  "add_product E n product plan_identifier state_prop plan_label c =
     (case product of
        PDict kvs \<Rightarrow>
          if \<not> hashable (dget kvs ''identifier'') then raise_exn TypeError c
          else if dict_get (all_products c) (dget kvs ''identifier'') \<noteq> None then ret False c
          else
            bind_run
              (if dget kvs ''specurl'' \<noteq> PNone then
                 bind_run (product_details E n (dget kvs ''specurl'')) (\<lambda>details.
                 bind_run (pure_run (py_get details ''product'')) (\<lambda>info.
                 ret (info, sales_price E info)))
               else ret (PDict [], PNone))
            (\<lambda>(info, price).
              bind_run (address E n (dget kvs ''addressId'')) (\<lambda>addr.
              bind_run (modify (\<lambda>c'. c'\<lparr> all_products :=
                  dict_set (dget kvs ''identifier'')
                    (TelenetProduct_default\<lparr>
                       product_identifier := dget kvs ''identifier'',
                       product_type := dget kvs ''productType'',
                       product_description_key := dget kvs ''productType'',
                       product_plan_identifier := plan_identifier,
                       product_plan_label := plan_label,
                       product_name := dget kvs ''identifier'',
                       product_key := PStr (format_entity_name E
                          (py_str E (dget kvs ''identifier'') @ '' ''
                           @ py_str E (dget kvs ''productType'') @ '' product'')),
                       product_state :=
                          localized_state E (language c') info (dget kvs ''label''),
                       product_specurl := dget kvs ''specurl'',
                       product_info := info,
                       product_address := addr,
                       product_price := price \<rparr>)
                    (all_products c') \<rparr>)) (\<lambda>_.
              bind_run (modify (add_product_type (dget kvs ''productType''))) (\<lambda>_.
              ret True)))) c
      | _ \<Rightarrow> raise_exn AttributeError c)"

text \<open>Lines 292-300: the options of a child.\<close>

fun register_option_list :: "env \<Rightarrow> nat \<Rightarrow> pyval \<Rightarrow> pyval \<Rightarrow> pyval list \<Rightarrow> unit run" where
  "register_option_list E n plan_identifier plan_label [] = ret ()"
| "register_option_list E n plan_identifier plan_label (option # rest) =
     bind_run (pure_run (py_contains option ''identifier'')) (\<lambda>has_identifier.
     bind_run (if has_identifier
               then bind_run (add_product E n option plan_identifier ''label'' plan_label)
                      (\<lambda>_. ret ())
               else ret ()) (\<lambda>_.
     register_option_list E n plan_identifier plan_label rest))"

definition register_options :: "env \<Rightarrow> nat \<Rightarrow> pyval \<Rightarrow> pyval \<Rightarrow> pyval \<Rightarrow> unit run" where
  "register_options E n plan_identifier plan_label product =
     bind_run (pure_run (py_contains product ''options'')) (\<lambda>has_options.
     if \<not> has_options then ret ()
     else
       bind_run (pure_run (py_get product ''options'')) (\<lambda>options.
       bind_run (pure_run (py_len options)) (\<lambda>l.
       if l = 0 then ret ()
       else bind_run (pure_run (py_iter options))
              (register_option_list E n plan_identifier plan_label))))"

text \<open>Lines 286-307: the children of a plan; the result is \<open>dtv_found\<close>.\<close>

fun register_children ::
  "env \<Rightarrow> nat \<Rightarrow> pyval \<Rightarrow> pyval \<Rightarrow> pyval list \<Rightarrow> bool \<Rightarrow> bool run" where
  "register_children E n plan_identifier plan_label [] dtv_found = ret dtv_found"
| "register_children E n plan_identifier plan_label (product # rest) dtv_found =
     bind_run (pure_run (py_get product ''productType'')) (\<lambda>ptype.
     bind_run (register_options E n plan_identifier plan_label product) (\<lambda>_.
     bind_run (add_product E n product plan_identifier ''label'' plan_label) (\<lambda>_.
     register_children E n plan_identifier plan_label rest
       (dtv_found \<or> ptype = PStr ''dtv''))))"

text \<open>Lines 308-312.\<close>

definition ignore_extra_sensor :: "pyval \<Rightarrow> unit run" where
  "ignore_extra_sensor plan_identifier c =
     (if \<not> hashable plan_identifier then raise_exn TypeError c
      else case dict_get (all_products c) plan_identifier of
        None \<Rightarrow> raise_exn AttributeError c
      | Some p \<Rightarrow>
          Some (Inr (), c\<lparr> all_products :=
            dict_set plan_identifier (p\<lparr> product_ignore_extra_sensor := True \<rparr>) (all_products c) \<rparr>))"

text \<open>Lines 273-312, one plan of the active-products list.\<close>

definition register_plan :: "env \<Rightarrow> nat \<Rightarrow> pyval \<Rightarrow> unit run" where
  "register_plan E n a_product =
     bind_run (pure_run (py_get a_product ''identifier'')) (\<lambda>plan_identifier.
     bind_run (pure_run (py_get a_product ''label'')) (\<lambda>plan_label.
     bind_run (add_product E n a_product plan_identifier ''label'' plan_label) (\<lambda>_.
     bind_run (pure_run (py_get a_product ''children'')) (\<lambda>children.
     bind_run (pure_run (py_iter children)) (\<lambda>children_list.
     bind_run (register_children E n plan_identifier plan_label children_list False) (\<lambda>dtv_found.
     bind_run (pure_run (py_get a_product ''productType'')) (\<lambda>ptype.
     if dtv_found \<and> ptype = PStr ''dtv'' then ignore_extra_sensor plan_identifier
     else ret ())))))))"

fun register_plans :: "env \<Rightarrow> nat \<Rightarrow> pyval list \<Rightarrow> unit run" where
  "register_plans E n [] = ret ()"
| "register_plans E n (a_product # rest) =
     bind_run (register_plan E n a_product) (\<lambda>_. register_plans E n rest)"

text \<open>Lines 1095-1098: a subscription of a product that is not in the table is a
  KeyError.\<close>

fun attach_subscriptions :: "pyval list \<Rightarrow> unit run" where
  "attach_subscriptions [] = ret ()"
| "attach_subscriptions (product # rest) =
     bind_run (pure_run (py_get product ''identifier'')) (\<lambda>identifier.
     bind_run (\<lambda>c.
        if \<not> hashable identifier then raise_exn TypeError c
        else case dict_get (all_products c) identifier of
          None \<Rightarrow> raise_exn KeyError c
        | Some p \<Rightarrow>
            Some (Inr (), c\<lparr> all_products :=
              dict_set identifier (p\<lparr> product_subscription_info := product \<rparr>) (all_products c) \<rparr>))
     (\<lambda>_. attach_subscriptions rest))"

text \<open>Lines 1081-1098.\<close>

fun product_subscriptions_loop :: "env \<Rightarrow> nat \<Rightarrow> pyval list \<Rightarrow> unit run" where
  "product_subscriptions_loop E n [] = ret ()"
| "product_subscriptions_loop E n (ptype # rest) =
     bind_run (pure_run (py_upper ptype)) (\<lambda>upper.
     bind_run (request E n
        (PStr (''https://api.prd.telenet.be/ocapi/public/api/product-service/v1/product-subscriptions?producttypes=''
               @ upper))
        ''[TelenetClient|product_subscriptions]'' PNone (Some 200) False (CONNECTION_RETRY E))
     (\<lambda>response.
     bind_run (case response of
                 RFalse \<Rightarrow> ret ()
               | Resp r \<Rightarrow>
                   bind_run (json_of r) (\<lambda>j.
                   bind_run (pure_run (py_iter j)) attach_subscriptions)) (\<lambda>_.
     product_subscriptions_loop E n rest)))"

definition product_subscriptions :: "env \<Rightarrow> nat \<Rightarrow> unit run" where
  "product_subscriptions E n c = product_subscriptions_loop E n (product_types c) c"

text \<open>Lines 1023-1024.\<close>

fun store_plans :: "pyval list \<Rightarrow> unit run" where
  "store_plans [] = ret ()"
| "store_plans (plan # rest) =
     bind_run (pure_run (py_get plan ''identifier'')) (\<lambda>identifier.
     bind_run (\<lambda>c.
        if \<not> hashable identifier then raise_exn TypeError c
        else Some (Inr (), c\<lparr> plan_products := dict_set identifier plan (plan_products c) \<rparr>))
     (\<lambda>_. store_plans rest))"

text \<open>Lines 1011-1025.\<close>

definition plan_info :: "env \<Rightarrow> nat \<Rightarrow> bool run" where
  "plan_info E n =
     bind_run (modify (\<lambda>c. c\<lparr> plan_products := [] \<rparr>)) (\<lambda>_.
     bind_run (request E n
        (PStr ''https://api.prd.telenet.be/ocapi/public/api/product-service/v1/product-subscriptions?producttypes=PLAN'')
        ''[TelenetClient|planInfo]'' PNone (Some 200) False (CONNECTION_RETRY E))
     (\<lambda>response. case response of
        RFalse \<Rightarrow> ret False
      | Resp r \<Rightarrow>
          bind_run (json_of r) (\<lambda>j.
          bind_run (pure_run (py_iter j)) (\<lambda>plans.
          bind_run (store_plans plans) (\<lambda>_. ret False)))))"

section \<open>Derived sensors\<close>

type_synonym items = "(pyval \<times> pyval) list"
type_synonym table = "(pyval \<times> TelenetProduct) list"

text \<open>A loop whose body may raise.\<close>

fun fold_exn :: "('a \<Rightarrow> 'b \<Rightarrow> exn + 'b) \<Rightarrow> 'a list \<Rightarrow> 'b \<Rightarrow> exn + 'b" where
  "fold_exn f [] acc = Inr acc"
| "fold_exn f (x # xs) acc = (case f x acc of Inl e \<Rightarrow> Inl e | Inr acc' \<Rightarrow> fold_exn f xs acc')"

text \<open>\<open>v | d\<close> and \<open>v |= d\<close> for a dict \<open>d\<close>: only a dict on the left has the operator.
  \<open>d | v\<close> for a dict \<open>d\<close> likewise.\<close>

definition py_or_dict :: "pyval \<Rightarrow> items \<Rightarrow> exn + items" where
  "py_or_dict v d = (case v of PDict kvs \<Rightarrow> Inr (dict_update kvs d) | _ \<Rightarrow> Inl TypeError)"

definition dict_or_py :: "items \<Rightarrow> pyval \<Rightarrow> exn + items" where
  "dict_or_py d v = (case v of PDict kvs \<Rightarrow> Inr (dict_update d kvs) | _ \<Rightarrow> Inl TypeError)"

text \<open>\<open>v.replace(old, new)\<close>: a string method.\<close>

definition py_replace :: "pyval \<Rightarrow> string \<Rightarrow> string \<Rightarrow> exn + string" where
  "py_replace v old new =
     (case v of PStr s \<Rightarrow> Inr (replace_str old new s) | _ \<Rightarrow> Inl AttributeError)"

text \<open>Lines 966-971. Over a list the keys are its elements, which must then be
  indices into it.\<close>

fun attributes_of_list :: "pyval list \<Rightarrow> pyval list \<Rightarrow> items \<Rightarrow> exn + items" where
  "attributes_of_list whole [] acc = Inr acc"
| "attributes_of_list whole (key # rest) acc =
     (case int_value key of
        None \<Rightarrow> Inl TypeError
      | Some i \<Rightarrow>
          if - int (length whole) \<le> i \<and> i < int (length whole)
          then attributes_of_list whole rest
                 (dict_set key (whole ! nat (if i < 0 then i + int (length whole) else i)) acc)
          else Inl IndexError)"

definition create_extra_attributes_list :: "pyval \<Rightarrow> exn + items" where
  "create_extra_attributes_list attr_list =
     (case attr_list of
        PDict kvs \<Rightarrow>
          Inr (fold (\<lambda>key acc. dict_set key (case dict_get kvs key of None \<Rightarrow> PNone | Some v \<Rightarrow> v) acc)
                 (map fst kvs) [])
      | PList xs \<Rightarrow> attributes_of_list xs xs []
      | PStr s \<Rightarrow> (if s = [] then Inr [] else Inl TypeError)
      | _ \<Rightarrow> Inl TypeError)"

text \<open>Lines 319-350. The result is the one item of the dict the method returns.\<close>

definition construct_extra_sensor ::
  "env \<Rightarrow> TelenetProduct \<Rightarrow> pyval \<Rightarrow> pyval \<Rightarrow> pyval \<Rightarrow> pyval \<Rightarrow> bool \<Rightarrow> pyval
     \<Rightarrow> pyval \<times> TelenetProduct" where
  "construct_extra_sensor E product suffix description_key state attrs use_plan_identifier uom =
     (let identifier = (if use_plan_identifier then product_plan_identifier product
                        else product_identifier product);
          key = format_entity_name E
                  (py_str E identifier @ '' '' @ py_str E (product_type product) @ '' ''
                   @ py_str E suffix)
      in (PStr key,
          TelenetProduct_default\<lparr>
            product_identifier := PStr (py_str E identifier @ '' '' @ py_str E suffix),
            product_type := product_type product,
            product_description_key := description_key,
            product_plan_identifier := product_plan_identifier product,
            product_plan_label := product_plan_label product,
            product_name := PStr (py_str E identifier @ '' '' @ py_str E suffix),
            product_key := PStr key,
            product_state := state,
            product_extra_sensor := True,
            product_extra_attributes := attrs,
            native_unit_of_measurement := uom \<rparr>))"

text \<open>\<open>new_products.update({key: sensor})\<close>\<close>

definition add_sensor :: "pyval \<times> TelenetProduct \<Rightarrow> table \<Rightarrow> table" where
  "add_sensor s new_products = dict_set (fst s) (snd s) new_products"

text \<open>\<open>self.total_cost += x\<close>\<close>

definition add_cost :: "env \<Rightarrow> pyval \<Rightarrow> unit run" where
  "add_cost E x c =
     (case py_add E (total_cost c) x of
        Inl e \<Rightarrow> raise_exn e c
      | Inr t \<Rightarrow> Some (Inr (), c\<lparr> total_cost := t \<rparr>))"

text \<open>Lines 367-379: the price sensor. (Line 369 sets an attribute \<open>specurl\<close> that is
  no field of the product.)\<close>

definition price_sensor :: "env \<Rightarrow> TelenetProduct \<Rightarrow> items \<Rightarrow> table \<Rightarrow> table run" where
  "price_sensor E product type_attr new_products =
     (if product_price product \<noteq> PNone then
        bind_run (pure_run (bind_exn (py_get (product_price product) ''value'') (str_to_float E)))
        (\<lambda>cost.
        bind_run (add_cost E cost) (\<lambda>_.
        bind_run (pure_run (py_or_dict (product_price product) type_attr)) (\<lambda>attrs.
        ret (add_sensor (construct_extra_sensor E product (PStr ''price'') (PStr ''euro'') cost
                           (PDict attrs) False PNone) new_products))))
      else ret new_products)"

subsection \<open>Internet\<close>

text \<open>Lines 570-594: the Wi-Fi sensor and, when the roaming settings hold a network
  key, the QR sensor.\<close>

definition wifi_qr :: "string \<Rightarrow> string \<Rightarrow> string" where
  "wifi_qr ssid network_key = ''WIFI:S:'' @ ssid @ '';T:WPA;P:'' @ network_key @ '';;''"

definition wifi_sensors :: "env \<Rightarrow> TelenetProduct \<Rightarrow> pyval \<Rightarrow> table \<Rightarrow> exn + table" where
  "wifi_sensors E product settings new_products =
     (if settings = PBool False then Inr new_products
      else
        bind_exn (py_get settings ''wirelessEnabled'') (\<lambda>enabled.
        bind_exn (create_extra_attributes_list settings) (\<lambda>attrs.
        bind_exn (py_get settings ''singleSSIDRoamingSettings'') (\<lambda>roaming.
        bind_exn (py_contains roaming ''networkKey'') (\<lambda>has_key.
        if has_key then
          bind_exn (py_get roaming ''networkKey'') (\<lambda>k.
          bind_exn (py_replace k '':'' [CHR 0x5C, CHR '':'']) (\<lambda>network_key.
          bind_exn (py_get roaming ''name'') (\<lambda>ssid.
          Inr (add_sensor
                 (construct_extra_sensor E product (PStr ''wi-fi qr'') (PStr ''qr'')
                    (PStr (wifi_qr (py_str E ssid) network_key)) (PDict []) False PNone)
                 (add_sensor
                    (construct_extra_sensor E product (PStr ''wi-fi'') (PStr ''wifi'') enabled
                       (PDict attrs) False PNone) new_products)))))
        else
          Inr (add_sensor
                 (construct_extra_sensor E product (PStr ''wi-fi'') (PStr ''wifi'') enabled
                    (PDict attrs) False PNone) new_products))))))"

text \<open>Lines 413-421: the four daily series.\<close>

type_synonym series = "pyval list \<times> pyval list \<times> pyval list \<times> pyval list"

fun collect_days :: "pyval list \<Rightarrow> series \<Rightarrow> exn + series" where
  "collect_days [] acc = Inr acc"
| "collect_days (day # rest) (daily_peak, daily_off_peak, daily_total, daily_date) =
     bind_exn (py_get day ''peak'') (\<lambda>p.
     bind_exn (py_get day ''offPeak'') (\<lambda>off.
     bind_exn (py_get day ''total'') (\<lambda>t.
     bind_exn (py_get day ''date'') (\<lambda>d.
     collect_days rest
       (daily_peak @ [p], daily_off_peak @ [off], daily_total @ [t], daily_date @ [d])))))"

text \<open>Lines 402-421: the daily usage of every cycle.\<close>

fun daily_usage_loop ::
  "env \<Rightarrow> nat \<Rightarrow> pyval \<Rightarrow> pyval \<Rightarrow> pyval list \<Rightarrow> items \<times> series \<Rightarrow> (items \<times> series) run" where
  "daily_usage_loop E n ptype identifier [] acc = ret acc"
| "daily_usage_loop E n ptype identifier (cycle # rest) (usage_by_cycle, daily) =
     bind_run (pure_run (py_get cycle ''billCycle'')) (\<lambda>bill_cycle.
     bind_run (pure_run (py_get cycle ''startDate'')) (\<lambda>start_date.
     bind_run (pure_run (py_get cycle ''endDate'')) (\<lambda>end_date.
     bind_run (product_daily_usage E n ptype identifier bill_cycle start_date end_date)
     (\<lambda>daily_usage.
     bind_run (pure_run (py_len daily_usage)) (\<lambda>l.
     if l = 0 then daily_usage_loop E n ptype identifier rest (usage_by_cycle, daily)
     else
       bind_run (pure_run (if hashable bill_cycle
                           then Inr (dict_set bill_cycle daily_usage usage_by_cycle)
                           else Inl TypeError)) (\<lambda>usage_by_cycle'.
       bind_run (pure_run
         (bind_exn (py_get daily_usage ''internetUsage'') (\<lambda>internet_usage.
          bind_exn (py_first internet_usage) (\<lambda>first.
          bind_exn (py_get first ''dailyUsages'') (\<lambda>days.
          bind_exn (py_iter days) (\<lambda>ds. collect_days ds daily)))))) (\<lambda>daily'.
       daily_usage_loop E n ptype identifier rest (usage_by_cycle', daily'))))))))"

text \<open>Lines 381-594.\<close>

definition internet_sensors ::
  "env \<Rightarrow> nat \<Rightarrow> TelenetProduct \<Rightarrow> pyval \<Rightarrow> table \<Rightarrow> table run" where
  "internet_sensors E n product specs new_products =
     bind_run (bill_cycles E n (product_type product) (product_identifier product) 2) (\<lambda>billcycle.
     bind_run (pure_run (py_get billcycle ''start_date'')) (\<lambda>start_date.
     bind_run (pure_run (py_get billcycle ''end_date'')) (\<lambda>end_date.
     bind_run (product_usage E n (product_type product) (product_identifier product)
                 start_date end_date) (\<lambda>usage.
     if usage = PBool False then ret new_products
     else
     bind_run (pure_run (bind_exn (py_get billcycle ''cycles'') py_iter)) (\<lambda>cycles.
     bind_run (daily_usage_loop E n (product_type product) (product_identifier product) cycles
                 ([], ([], [], [], [])))
     (\<lambda>(usage_by_cycle, daily_peak, daily_off_peak, daily_total, daily_date).
     if dget usage_by_cycle ''CURRENT'' = PBool False then ret new_products
     else
     bind_run (modems E n (product_identifier product)) (\<lambda>modem.
     if modem = PBool False then ret new_products
     else
     bind_run (\<lambda>c. pure_run (internet_usage_attributes E (product_identifier product) usage
                   billcycle (dget usage_by_cycle ''CURRENT'') specs (language c)) c)
     (\<lambda>(usage_pct, attributes).
     bind_run (pure_run (get_json_dict_path E (dget usage_by_cycle ''CURRENT'')
                 ''$.internetUsage[0].totalUsage.peak'')) (\<lambda>peak.
     bind_run (pure_run (bind_exn (get_json_dict_path E (dget usage_by_cycle ''CURRENT'')
                 ''$.internetUsage[0].totalUsage'') create_extra_attributes_list)) (\<lambda>daily_attrs.
     bind_run (pure_run (py_get modem ''name'')) (\<lambda>modem_name.
     bind_run (pure_run (create_extra_attributes_list modem)) (\<lambda>modem_attrs.
     bind_run (pure_run (py_get modem ''mac'')) (\<lambda>mac.
     bind_run (network_topology E n mac) (\<lambda>topology_raw.
     bind_run (pure_run (clean_ipv6 E topology_raw)) (\<lambda>topology.
     bind_run (pure_run (py_get topology ''model'')) (\<lambda>model.
     bind_run (pure_run (create_extra_attributes_list topology)) (\<lambda>topology_attrs.
     bind_run (wireless_settings E n mac (product_identifier product)) (\<lambda>settings.
     pure_run (wifi_sensors E product settings
       (add_sensor (construct_extra_sensor E product (PStr ''network'') (PStr ''network'') model
                      (PDict topology_attrs) False PNone)
       (add_sensor (construct_extra_sensor E product (PStr ''modem'') (PStr ''modem'') modem_name
                      (PDict modem_attrs) False PNone)
       (add_sensor (construct_extra_sensor E product (PStr ''daily usage'') (PStr ''data_usage'')
                      peak
                      (PDict (dict_update daily_attrs
                         [(PStr ''daily_peak'', PList daily_peak),
                          (PStr ''daily_off_peak'', PList daily_off_peak),
                          (PStr ''daily_total'', PList daily_total),
                          (PStr ''daily_date'', PList daily_date)])) False PNone)
       (add_sensor (construct_extra_sensor E product (PStr ''usage'') (PStr ''usage_percentage'')
                      usage_pct (PDict attributes) False PNone)
          new_products)))))))))))))))))))))))"

subsection \<open>Digital TV\<close>

text \<open>Lines 641-652: one sensor per device, all under the suffix \<open>dtv device\<close>.\<close>

definition device_sensor :: "env \<Rightarrow> TelenetProduct \<Rightarrow> pyval \<Rightarrow> nat \<Rightarrow> exn + pyval \<times> TelenetProduct" where
  "device_sensor E product devices idx =
     bind_exn (get_json_dict_path E devices (''$.dtv['' @ string_of_nat idx @ ''].boxName'')) (\<lambda>box.
     bind_exn (bind_exn (get_json_dict_path E devices (''$.dtv['' @ string_of_nat idx @ '']''))
                 create_extra_attributes_list) (\<lambda>attrs.
     Inr (construct_extra_sensor E product (PStr ''dtv device'') (PStr ''dtv'') box
            (PDict attrs) False PNone)))"

text \<open>Lines 595-652.\<close>

definition dtv_sensors :: "env \<Rightarrow> nat \<Rightarrow> TelenetProduct \<Rightarrow> items \<Rightarrow> table \<Rightarrow> table run" where
  "dtv_sensors E n product type_attr new_products =
     (if product_ignore_extra_sensor product then ret new_products
      else
        bind_run (bill_cycles E n (product_type product) (product_identifier product) 1) (\<lambda>billcycle.
        bind_run (pure_run (py_get billcycle ''start_date'')) (\<lambda>start_date.
        bind_run (pure_run (py_get billcycle ''end_date'')) (\<lambda>end_date.
        bind_run (product_usage E n (product_type product) (product_identifier product)
                    start_date end_date) (\<lambda>usage.
        if usage = PBool False then ret new_products
        else
        bind_run (device_details E n (product_type product) (product_identifier product)) (\<lambda>devices.
        if devices = PBool False then ret new_products
        else
        bind_run (pure_run (bind_exn (get_json_dict_path E usage ''$.dtv.totalUsage.currentUsage'')
                    (str_to_float E))) (\<lambda>cost.
        bind_run (add_cost E cost) (\<lambda>_.
        bind_run (pure_run (bind_exn (get_json_dict_path E usage ''$.dtv'')
                    create_extra_attributes_list)) (\<lambda>attrs.
        bind_run (pure_run (bind_exn (py_get devices ''dtv'') py_iter)) (\<lambda>boxes.
        pure_run (fold_exn
           (\<lambda>idx acc. bind_exn (device_sensor E product devices idx) (\<lambda>s. Inr (add_sensor s acc)))
           [0 ..< length boxes]
           (add_sensor (construct_extra_sensor E product (PStr ''usage'') (PStr ''euro'') cost
                          (PDict (dict_update attrs type_attr)) False PNone)
              new_products))))))))))))"

subsection \<open>Mobile\<close>

text \<open>The sensors of the buckets of a usage record, one definition per loop body.\<close>

type_synonym sensor = "pyval \<times> TelenetProduct"

text \<open>Lines 713-727 (shared data of the bundle, keyed by the plan).\<close>

definition bundle_data_sensor :: "env \<Rightarrow> TelenetProduct \<Rightarrow> items \<Rightarrow> pyval \<Rightarrow> exn + sensor" where
  "bundle_data_sensor E product attr_to_merge data =
     (case data of
        PDict kvs \<Rightarrow>
          Inr (construct_extra_sensor E product (dget kvs ''bucketType'')
                 (PStr ''usage_percentage_mobile'') (dget kvs ''usedPercentage'')
                 (PDict (dict_update (dict_update
                    [(PStr ''usage'', PStr (py_str E (dget kvs ''usedUnits'') @ ''/''
                        @ py_str E (dget kvs ''startUnits'') @ '' ''
                        @ py_str E (dget kvs ''unitType'')))] kvs) attr_to_merge))
                 True PNone)
      | _ \<Rightarrow> Inl AttributeError)"

text \<open>Lines 728-738.\<close>

definition bundle_text_sensor :: "env \<Rightarrow> TelenetProduct \<Rightarrow> pyval \<Rightarrow> exn + sensor" where
  "bundle_text_sensor E product data =
     (case data of
        PDict kvs \<Rightarrow>
          Inr (construct_extra_sensor E product (PStr ''sms'') (PStr ''mobile_sms'')
                 (dget kvs ''usedUnits'')
                 (PDict (dict_update
                    [(PStr ''usage'', PStr (py_str E (dget kvs ''usedUnits'') @ '' SMSes''))] kvs))
                 True PNone)
      | _ \<Rightarrow> Inl AttributeError)"

text \<open>Lines 739-757.\<close>

definition bundle_voice_sensor :: "env \<Rightarrow> TelenetProduct \<Rightarrow> items \<Rightarrow> pyval \<Rightarrow> exn + sensor" where
  "bundle_voice_sensor E product attr_to_merge data =
     (case data of
        PDict kvs \<Rightarrow>
          bind_exn (float_to_timestring E (dget kvs ''usedUnits'') (dget kvs ''unitType'')) (\<lambda>t.
          Inr (construct_extra_sensor E product (PStr ''voice'') (PStr ''mobile_voice'') t
                 (PDict (dict_update (dict_update [(PStr ''usage'', t)] kvs) attr_to_merge))
                 True PNone))
      | _ \<Rightarrow> Inl AttributeError)"

text \<open>Lines 777-792 (the line's own data buckets, keyed by the line).\<close>

definition line_data_sensor :: "env \<Rightarrow> TelenetProduct \<Rightarrow> items \<Rightarrow> pyval \<Rightarrow> exn + sensor" where
  "line_data_sensor E product attr_to_merge data =
     (case data of
        PDict kvs \<Rightarrow>
          bind_exn (py_lower (dget kvs ''name'')) (\<lambda>name.
          bind_exn (str_to_float E (dget kvs ''usedUnits'')) (\<lambda>used.
          Inr (construct_extra_sensor E product (PStr name) (PStr ''mobile_data'') used
                 (PDict (dict_update (dict_update
                    [(PStr ''usage'', PStr (py_str E (dget kvs ''usedUnits'') @ '' ''
                        @ py_str E (dget kvs ''unitType'')))] kvs) attr_to_merge))
                 False (dget kvs ''unitType''))))
      | _ \<Rightarrow> Inl AttributeError)"

text \<open>Lines 793-804.\<close>

definition line_text_sensor :: "env \<Rightarrow> TelenetProduct \<Rightarrow> items \<Rightarrow> pyval \<Rightarrow> exn + sensor" where
  "line_text_sensor E product attr_to_merge data =
     (case data of
        PDict kvs \<Rightarrow>
          bind_exn (py_lower (dget kvs ''name'')) (\<lambda>name.
          Inr (construct_extra_sensor E product (PStr (replace_str ''text'' ''sms'' name))
                 (PStr ''mobile_sms'') (dget kvs ''usedUnits'')
                 (PDict (dict_update (dict_update
                    [(PStr ''usage'', PStr (py_str E (dget kvs ''usedUnits'') @ '' SMSes''))] kvs)
                    attr_to_merge))
                 False PNone))
      | _ \<Rightarrow> Inl AttributeError)"

text \<open>Lines 805-822.\<close>

definition line_voice_sensor :: "env \<Rightarrow> TelenetProduct \<Rightarrow> items \<Rightarrow> pyval \<Rightarrow> exn + sensor" where
  "line_voice_sensor E product attr_to_merge data =
     (case data of
        PDict kvs \<Rightarrow>
          bind_exn (py_lower (dget kvs ''name'')) (\<lambda>name.
          bind_exn (float_to_timestring E (dget kvs ''usedUnits'') (dget kvs ''unitType'')) (\<lambda>t.
          Inr (construct_extra_sensor E product (PStr name) (PStr ''mobile_voice'') t
                 (PDict (dict_update (dict_update [(PStr ''usage'', t)] kvs) attr_to_merge))
                 False PNone)))
      | _ \<Rightarrow> Inl AttributeError)"

text \<open>\<open>for data in usage.get("shared").get(kind): new_products.update(...)\<close>\<close>

definition shared_sensors ::
  "pyval \<Rightarrow> string \<Rightarrow> (pyval \<Rightarrow> exn + sensor) \<Rightarrow> table \<Rightarrow> exn + table" where
  "shared_sensors usage kind body new_products =
     bind_exn (py_get usage ''shared'') (\<lambda>shared.
     bind_exn (py_get shared kind) (\<lambda>buckets.
     bind_exn (py_iter buckets) (\<lambda>bs.
     fold_exn (\<lambda>data acc. bind_exn (body data) (\<lambda>s. Inr (add_sensor s acc))) bs new_products)))"

text \<open>The out-of-bundle sensor of a usage record (lines 692-712, 759-776, 843-861).\<close>

definition out_of_bundle ::
  "env \<Rightarrow> TelenetProduct \<Rightarrow> items \<Rightarrow> items \<Rightarrow> pyval \<Rightarrow> bool \<Rightarrow> table \<Rightarrow> table run" where
  "out_of_bundle E product attr_to_merge type_attr usage use_plan_identifier new_products =
     bind_run (pure_run (bind_exn (get_json_dict_path E usage ''$.outOfBundle.usedUnits'')
                 (str_to_float E))) (\<lambda>cost.
     bind_run (add_cost E cost) (\<lambda>_.
     bind_run (pure_run (bind_exn (get_json_dict_path E usage ''$.outOfBundle'')
                 create_extra_attributes_list)) (\<lambda>attrs.
     ret (add_sensor
            (construct_extra_sensor E product (PStr ''out of bundle'') (PStr ''euro'') cost
               (PDict (dict_update (dict_update attrs attr_to_merge) type_attr))
               use_plan_identifier PNone)
            new_products))))"

text \<open>Lines 687-757: the sensors of the bundle, emitted when the table holds no
  product under the bundle key.\<close>

definition bundle_sensors ::
  "env \<Rightarrow> TelenetProduct \<Rightarrow> items \<Rightarrow> items \<Rightarrow> pyval \<Rightarrow> table \<Rightarrow> table run" where
  "bundle_sensors E product attr_to_merge type_attr bundleusage new_products =
     bind_run (out_of_bundle E product attr_to_merge type_attr bundleusage True new_products)
     (\<lambda>t1.
     pure_run (
       bind_exn (shared_sensors bundleusage ''data''
                   (bundle_data_sensor E product attr_to_merge) t1) (\<lambda>t2.
       bind_exn (shared_sensors bundleusage ''text'' (bundle_text_sensor E product) t2) (\<lambda>t3.
       shared_sensors bundleusage ''voice'' (bundle_voice_sensor E product attr_to_merge) t3))))"

text \<open>Lines 758-822: the sensors of the line itself.\<close>

definition line_sensors ::
  "env \<Rightarrow> TelenetProduct \<Rightarrow> items \<Rightarrow> items \<Rightarrow> pyval \<Rightarrow> table \<Rightarrow> table run" where
  "line_sensors E product attr_to_merge type_attr usage new_products =
     bind_run (out_of_bundle E product attr_to_merge type_attr usage False new_products)
     (\<lambda>t1.
     pure_run (
       bind_exn (shared_sensors usage ''data'' (line_data_sensor E product attr_to_merge) t1) (\<lambda>t2.
       bind_exn (shared_sensors usage ''text'' (line_text_sensor E product attr_to_merge) t2) (\<lambda>t3.
       shared_sensors usage ''voice'' (line_voice_sensor E product attr_to_merge) t3))))"

text \<open>Lines 657-822: a line whose plan identifier differs from its identifier.\<close>

definition mobile_line_sensors ::
  "env \<Rightarrow> nat \<Rightarrow> TelenetProduct \<Rightarrow> items \<Rightarrow> table \<Rightarrow> table run" where
  "mobile_line_sensors E n product type_attr new_products =
     bind_run (\<lambda>c. pure_run (py_get (user_details c) ''identity_id'') c) (\<lambda>identity_id.
     bind_run (mobile_bundle_usage E n (product_plan_identifier product)
                 (product_identifier product)) (\<lambda>usage.
     if usage = PBool False then ret new_products
     else
     bind_run (pure_run (py_get usage ''nextBillingDate'')) (\<lambda>next_billing_date.
     if next_billing_date = PBool False then ret new_products
     else
     bind_run (pure_run (days_until E next_billing_date)) (\<lambda>days.
     bind_run (mobile_bundle_usage E n (product_plan_identifier product) PNone) (\<lambda>bundleusage.
     if bundleusage = PBool False then ret new_products
     else
     bind_run (\<lambda>c.
        if dict_get (all_products c)
             (PStr (format_entity_name E
                (py_str E identity_id @ '' '' @ py_str E (product_plan_identifier product) @ '' ''
                 @ py_str E (product_type product) @ '' bundle''))) = None
        then bundle_sensors E product
               [(PStr ''days_until'', days), (PStr ''next_billing_date'', next_billing_date)]
               type_attr bundleusage new_products c
        else ret new_products c) (\<lambda>t1.
     line_sensors E product
       [(PStr ''days_until'', days), (PStr ''next_billing_date'', next_billing_date)]
       type_attr usage t1))))))"

text \<open>Lines 863-867: \<open>int(start) > 0 or int(remaining) > 0 or int(used) > 0\<close>, left to
  right.\<close>

definition any_units :: "env \<Rightarrow> pyval \<Rightarrow> exn + bool" where
  "any_units E data =
     bind_exn (bind_exn (py_get data ''startUnits'') (py_int E)) (\<lambda>start_units.
     if 0 < start_units then Inr True
     else
       bind_exn (bind_exn (py_get data ''remainingUnits'') (py_int E)) (\<lambda>remaining_units.
       if 0 < remaining_units then Inr True
       else
         bind_exn (bind_exn (py_get data ''usedUnits'') (py_int E)) (\<lambda>used_units.
         Inr (0 < used_units))))"

text \<open>Lines 868-882.\<close>

definition total_data_sensor :: "env \<Rightarrow> TelenetProduct \<Rightarrow> items \<Rightarrow> pyval \<Rightarrow> exn + sensor" where
  "total_data_sensor E product attr_to_merge data =
     (case data of
        PDict kvs \<Rightarrow>
          bind_exn (str_to_float E (dget kvs ''usedUnits'')) (\<lambda>used.
          Inr (construct_extra_sensor E product (PStr ''data'') (PStr ''mobile_data'') used
                 (PDict (dict_update (dict_update
                    [(PStr ''usage'', PStr (py_str E (dget kvs ''usedUnits'') @ '' ''
                        @ py_str E (dget kvs ''unitType'')))] kvs) attr_to_merge))
                 False (dget kvs ''unitType'')))
      | _ \<Rightarrow> Inl AttributeError)"

text \<open>Lines 889-901.\<close>

definition total_text_sensor :: "env \<Rightarrow> TelenetProduct \<Rightarrow> items \<Rightarrow> pyval \<Rightarrow> exn + sensor" where
  "total_text_sensor E product attr_to_merge data =
     (case data of
        PDict kvs \<Rightarrow>
          Inr (construct_extra_sensor E product (PStr ''sms'') (PStr ''mobile_sms'')
                 (dget kvs ''usedUnits'')
                 (PDict (dict_update (dict_update
                    [(PStr ''usage'', PStr (py_str E (dget kvs ''usedUnits'') @ '' / ''
                        @ py_str E (dget kvs ''startUnits'') @ '' SMSes''))] kvs) attr_to_merge))
                 False PNone)
      | _ \<Rightarrow> Inl AttributeError)"

text \<open>Lines 908-922: the voice sensor; the source passes the suffix \<open>sms\<close> here too.\<close>

definition total_voice_sensor :: "env \<Rightarrow> TelenetProduct \<Rightarrow> items \<Rightarrow> pyval \<Rightarrow> exn + sensor" where
  "total_voice_sensor E product attr_to_merge data =
     (case data of
        PDict kvs \<Rightarrow>
          bind_exn (float_to_timestring E (dget kvs ''usedUnits'') (dget kvs ''unitType'')) (\<lambda>t.
          bind_exn (py_lower (dget kvs ''unitType'')) (\<lambda>unit_type.
          Inr (construct_extra_sensor E product (PStr ''sms'') (PStr ''mobile_voice'') t
                 (PDict (dict_update (dict_update
                    [(PStr ''usage'', PStr (py_str E (dget kvs ''usedUnits'') @ '' / ''
                        @ py_str E (dget kvs ''startUnits'') @ '' '' @ unit_type))] kvs)
                    attr_to_merge))
                 False PNone)))
      | _ \<Rightarrow> Inl AttributeError)"

text \<open>\<open>data = usage.get("total").get(kind)\<close>, then the sensor when any of its units is
  positive.\<close>

definition total_sensor ::
  "env \<Rightarrow> pyval \<Rightarrow> string \<Rightarrow> (pyval \<Rightarrow> exn + sensor) \<Rightarrow> table \<Rightarrow> exn + table" where
  "total_sensor E usage kind body new_products =
     bind_exn (py_get usage ''total'') (\<lambda>total.
     bind_exn (py_get total kind) (\<lambda>data.
     bind_exn (any_units E data) (\<lambda>some.
     if some then bind_exn (body data) (\<lambda>s. Inr (add_sensor s new_products))
     else Inr new_products)))"

text \<open>Lines 823-922: a standalone line.\<close>

definition mobile_standalone_sensors ::
  "env \<Rightarrow> nat \<Rightarrow> TelenetProduct \<Rightarrow> items \<Rightarrow> table \<Rightarrow> table run" where
  "mobile_standalone_sensors E n product type_attr new_products =
     bind_run (mobile_usage E n (product_identifier product)) (\<lambda>usage.
     if usage = PBool False then ret new_products
     else
     bind_run (pure_run (py_get usage ''nextBillingDate'')) (\<lambda>next_billing_date.
     bind_run (pure_run (days_until E next_billing_date)) (\<lambda>days.
     bind_run (out_of_bundle E product
                 [(PStr ''days_until'', days), (PStr ''next_billing_date'', next_billing_date)]
                 type_attr usage True new_products) (\<lambda>t1.
     pure_run (
       bind_exn (total_sensor E usage ''data''
          (total_data_sensor E product
             [(PStr ''days_until'', days), (PStr ''next_billing_date'', next_billing_date)]) t1)
       (\<lambda>t2.
       bind_exn (total_sensor E usage ''text''
          (total_text_sensor E product
             [(PStr ''days_until'', days), (PStr ''next_billing_date'', next_billing_date)]) t2)
       (\<lambda>t3.
       total_sensor E usage ''voice''
          (total_voice_sensor E product
             [(PStr ''days_until'', days), (PStr ''next_billing_date'', next_billing_date)]) t3)))))))"

subsection \<open>The pass over the table\<close>

text \<open>Lines 356-922, the body of the loop for one product. A \<open>continue\<close> of the source
  is the return of the sensors collected so far.\<close>

definition product_sensors :: "env \<Rightarrow> nat \<Rightarrow> TelenetProduct \<Rightarrow> table \<Rightarrow> table run" where
  "product_sensors E n product new_products =
     bind_run (product_details E n (product_specurl product)) (\<lambda>details.
     bind_run (pure_run (py_get details ''product'')) (\<lambda>specs.
     bind_run (\<lambda>c. pure_run
        (bind_exn (py_get specs ''localizedcontent'') (\<lambda>content.
         bind_exn (get_localized E (language c) content) (\<lambda>localized.
         py_get localized ''name''))) c) (\<lambda>type_name.
     bind_run (price_sensor E product [(PStr ''product type'', type_name)] new_products) (\<lambda>t1.
     if product_type product = PStr ''internet'' then internet_sensors E n product specs t1
     else if product_type product = PStr ''dtv'' then
       dtv_sensors E n product [(PStr ''product type'', type_name)] t1
     else if product_type product = PStr ''mobile'' then
       (if product_plan_identifier product \<noteq> product_identifier product
        then mobile_line_sensors E n product [(PStr ''product type'', type_name)] t1
        else mobile_standalone_sensors E n product [(PStr ''product type'', type_name)] t1)
     else ret t1))))"

fun product_sensors_loop :: "env \<Rightarrow> nat \<Rightarrow> TelenetProduct list \<Rightarrow> table \<Rightarrow> table run" where
  "product_sensors_loop E n [] new_products = ret new_products"
| "product_sensors_loop E n (product # rest) new_products =
     bind_run (product_sensors E n product new_products) (product_sensors_loop E n rest)"

text \<open>Lines 924-962: the invoice sensor and the user sensor.\<close>

definition account_sensors :: "env \<Rightarrow> table \<Rightarrow> table run" where
  "account_sensors E new_products c =
     (case py_get (user_details c) ''customer_number'' of
        Inl e \<Rightarrow> raise_exn e c
      | Inr customer_number \<Rightarrow>
        (case py_get (user_details c) ''first_name'' of
           Inl e \<Rightarrow> raise_exn e c
         | Inr first_name \<Rightarrow>
             ret (dict_set
                    (PStr (format_entity_name E (py_str E customer_number @ '' user details'')))
                    (TelenetProduct_default\<lparr>
                       product_identifier := PStr ''user details'',
                       product_type := PStr ''user'',
                       product_description_key := PStr ''user'',
                       product_name := PStr ''user details'',
                       product_key := PStr (format_entity_name E
                          (py_str E customer_number @ '' user details'')),
                       product_plan_identifier := customer_number,
                       product_plan_label := PStr ''Customer'',
                       product_state := first_name,
                       product_extra_attributes := user_details c,
                       product_extra_sensor := True \<rparr>)
                 (dict_set
                    (PStr (format_entity_name E (py_str E customer_number @ '' current invoice'')))
                    (TelenetProduct_default\<lparr>
                       product_identifier := PStr (py_str E customer_number @ '' current invoice''),
                       product_type := PStr ''invoice'',
                       product_description_key := PStr ''euro'',
                       product_name := PStr ''current invoice'',
                       product_key := PStr (format_entity_name E
                          (py_str E customer_number @ '' current invoice'')),
                       product_plan_identifier := customer_number,
                       product_plan_label := PStr ''Customer'',
                       product_state := total_cost c,
                       product_extra_sensor := True \<rparr>)
                    new_products)) c))"

text \<open>Lines 352-964. The loop runs over the products the table holds when it starts;
  the sensors reach the table only with the \<open>update\<close> at the end.\<close>

definition create_extra_sensors :: "env \<Rightarrow> nat \<Rightarrow> bool run" where
  "create_extra_sensors E n c =
     bind_run (product_sensors_loop E n (map snd (all_products c)) []) (\<lambda>t1.
     bind_run (account_sensors E t1) (\<lambda>t2.
     bind_run (modify (\<lambda>c'. c'\<lparr> all_products := dict_update (all_products c') t2 \<rparr>)) (\<lambda>_.
     ret True))) c"

section \<open>Extra attributes\<close>

text \<open>\<open>dir(attributes)\<close> without the names that start with two underscores, for the class
  of models.py that belongs to the product type; \<open>None\<close> for a type without a class.\<close>

definition extra_attribute_names :: "pyval \<Rightarrow> string list option" where
  "extra_attribute_names ptype =
     (if ptype = PStr ''internet'' then
        Some [''activationDate'', ''identifier'', ''internetType'', ''label'', ''productType'',
              ''specurl'', ''status'']
      else if ptype = PStr ''mobile'' then
        Some [''activationDate'', ''bundleIdentifier'', ''bundleType'', ''hasVoiceMail'',
              ''identifier'', ''isDataOnlyPlan'', ''label'', ''productType'', ''specurl'', ''status'']
      else if ptype = PStr ''dtv'' then
        Some [''activationDate'', ''bundleIdentifier'', ''identifier'', ''isInteractive'', ''label'',
              ''lineType'', ''productType'', ''specurl'', ''status'']
      else if ptype = PStr ''telephone'' then
        Some [''activationDate'', ''hasVoiceMail'', ''identifier'', ''label'', ''productType'',
              ''specurl'', ''status'']
      else if ptype = PStr ''bundle'' then
        Some [''activationDate'', ''bundleFamily'', ''hasActiveMyBill'', ''identifier'', ''label'',
              ''productType'', ''products'', ''specurl'', ''status'']
      else None)"

text \<open>Lines 997-1000.\<close>

definition select_attributes :: "string list \<Rightarrow> pyval \<Rightarrow> exn + items" where
  "select_attributes names info =
     fold_exn (\<lambda>key extra_attributes.
        bind_exn (py_contains info key) (\<lambda>present.
        if present then bind_exn (py_get info key) (\<lambda>v. Inr (dict_set (PStr key) v extra_attributes))
        else Inr extra_attributes)) names []"

text \<open>Lines 977-1001 for one real product. \<open>attributes\<close> is the variable of that name:
  it keeps the object of the last product whose type has a class, and is unbound before
  the first.\<close>

definition project_product ::
  "items \<Rightarrow> string list option \<Rightarrow> TelenetProduct \<Rightarrow> exn + string list option \<times> TelenetProduct" where
  "project_product plans attributes product =
     bind_exn (py_len (product_subscription_info product)) (\<lambda>l.
     bind_exn (if 0 < l then Inr (product_subscription_info product)
               else if hashable (product_identifier product)
               then Inr (case dict_get plans (product_identifier product) of
                           None \<Rightarrow> PNone | Some plan \<Rightarrow> plan)
               else Inl TypeError) (\<lambda>info.
     bind_exn (py_len info) (\<lambda>_.
     (case (case extra_attribute_names (product_type product) of
              Some names \<Rightarrow> Some names | None \<Rightarrow> attributes) of
        None \<Rightarrow> Inl UnboundLocalError
      | Some names \<Rightarrow>
          bind_exn (select_attributes names info) (\<lambda>extra_attributes.
          bind_exn (py_or_dict (product_extra_attributes product) extra_attributes) (\<lambda>merged.
          Inr (Some names, product\<lparr> product_extra_attributes := PDict merged \<rparr>)))))))"

text \<open>Lines 973-1002: the loop, over the entries still to visit; the entries visited
  stand before them.\<close>

fun set_extra_attributes_loop ::
  "items \<Rightarrow> string list option \<Rightarrow> table \<Rightarrow> table \<Rightarrow> (exn + bool) \<times> table" where
  "set_extra_attributes_loop plans attributes visited [] = (Inr True, visited)"
| "set_extra_attributes_loop plans attributes visited ((key, product) # rest) =
     (if product_extra_sensor product
      then set_extra_attributes_loop plans attributes (visited @ [(key, product)]) rest
      else case project_product plans attributes product of
        Inl e \<Rightarrow> (Inl e, visited @ (key, product) # rest)
      | Inr (attributes', product') \<Rightarrow>
          set_extra_attributes_loop plans attributes' (visited @ [(key, product')]) rest)"

definition set_extra_attributes :: "bool run" where
  "set_extra_attributes c =
     (case set_extra_attributes_loop (plan_products c) None [] (all_products c) of
        (r, t) \<Rightarrow> Some (r, c\<lparr> all_products := t \<rparr>))"

section \<open>The product list\<close>

definition no_products_message :: string where
  "no_products_message =
     ''No products found. Either the API is currently down or you are not migrated to the new Telenet IT system yet.''"

definition products_url :: pyval where
  "products_url =
     PStr ''https://api.prd.telenet.be/ocapi/public/api/product-service/v1/products?status=ACTIVE''"

text \<open>Lines 251-317.\<close>

definition products :: "env \<Rightarrow> nat \<Rightarrow> bool \<Rightarrow> TelenetProduct list run" where
  "products E n force_refresh c =
     (if 0 < length (all_products c) \<and> force_refresh = False
      then ret (map snd (all_products c)) c
      else
        bind_run (login E n) (\<lambda>_.
        bind_run (modify (\<lambda>c'. c'\<lparr> total_cost := PInt 0, all_products := [],
                                   product_types := [] \<rparr>)) (\<lambda>_.
        bind_run (request E n products_url ''[TelenetClient|products]'' PNone (Some 200) False
                    (CONNECTION_RETRY E)) (\<lambda>response.
        case response of
          RFalse \<Rightarrow> raise_exn (TelenetServiceException no_products_message)
        | Resp r \<Rightarrow>
            bind_run (json_of r) (\<lambda>j.
            bind_run (pure_run (py_iter j)) (\<lambda>plans.
            bind_run (register_plans E n plans) (\<lambda>_.
            bind_run (product_subscriptions E n) (\<lambda>_.
            bind_run (plan_info E n) (\<lambda>_.
            bind_run (create_extra_sensors E n) (\<lambda>_.
            bind_run set_extra_attributes (\<lambda>_.
            (\<lambda>c'. ret (map snd (all_products c')) c'))))))))))) c)"

section \<open>The claims' words\<close>

text \<open>
  The definitions of this section are not translations of the source: they say what the
  claims say, and the theorems compare them with the code.
\<close>




definition source_record :: "items \<Rightarrow> TelenetProduct \<Rightarrow> pyval" where
  "source_record plans product =
     (case product_subscription_info product of
        PDict (kv # kvs) \<Rightarrow> PDict (kv # kvs)
      | _ \<Rightarrow> (case dict_get plans (product_identifier product) of
                None \<Rightarrow> PNone | Some plan \<Rightarrow> plan))"





section \<open>Example portals\<close>

text \<open>
  The closed examples below run the client against a scripted portal. \<open>example_env\<close>
  instantiates the parameters with the simplest functions of their types; each example
  replaces its \<open>transport\<close>. The helpers of utils.py are stand-ins: \<open>format_entity_name\<close>
  leaves the name as it is, \<open>str_to_float\<close> accepts numbers, the duration is the raw count.
\<close>

text \<open>
  The stand-in for \<open>get_json_dict_path\<close> in the examples: it follows a path of plain
  keys from the root and gives \<open>None\<close> for a missing segment.
\<close>

definition dotted_path :: "pyval \<Rightarrow> string \<Rightarrow> pyval" where
  "dotted_path v path =
     foldl (\<lambda>x segment. case py_get x segment of Inl e \<Rightarrow> PNone | Inr y \<Rightarrow> y) v
       (tl (split_max CHR ''.'' (length path) path))"

definition example_env :: env where
  "example_env =
     \<lparr> transport = (\<lambda>i rq. Inl (TransportError ''unreachable'')),
       CONNECTION_RETRY = 3,
       format_entity_name = (\<lambda>s. s),
       str_to_float = (\<lambda>v. if is_number v then Inr v else Inl ValueError),
       float_to_timestring = (\<lambda>v unit_type. Inr v),
       get_json_dict_path = (\<lambda>v path. Inr (dotted_path v path)),
       get_localized = (\<lambda>lang v. Inr (PDict [])),
       clean_ipv6 = (\<lambda>v. Inr v),
       str_other = (\<lambda>v. ''?''),
       int_of = (\<lambda>v. Inl ValueError),
       float_add = (\<lambda>a b. a),
       float_gt0 = (\<lambda>v. False),
       days_until = (\<lambda>v. Inr (PInt 0)),
       internet_usage_attributes = (\<lambda>i u b d s l. Inl ValueError) \<rparr>"

definition example_client :: client where
  "example_client =
     \<lparr> username = PStr ''user'', password = PStr ''secret'', language = PStr ''nl'',
       environment = \<lparr> ocapi = ''https://api.prd.telenet.be/ocapi'',
                       openid = ''https://login.prd.telenet.be/openid'',
                       referer = [], x_alt_referer = [] \<rparr>,
       headers = [], cookies = [], sent = [], all_products = [], product_types = [],
       user_details = PDict [], plan_products = [], addresses = [],
       request_error = PDict [], total_cost = PInt 0 \<rparr>"

definition json_response :: "int \<Rightarrow> string \<Rightarrow> pyval \<Rightarrow> response" where
  "json_response status body j =
     \<lparr> status_code = status, resp_text = body, resp_json = Some j, resp_url = [],
       set_cookies = [] \<rparr>"

definition userdetails_url :: pyval where
  "userdetails_url = PStr ''https://api.prd.telenet.be/ocapi/oauth/userdetails''"

definition modems_url :: pyval where
  "modems_url = PStr ''https://api.prd.telenet.be/ocapi/public/api/resource-service/v1/modems?productIdentifier=i1''"

text \<open>A portal whose session is valid (the probe answers 200) and whose modems
  endpoint answers 500 every time.\<close>

definition portal_500 :: "nat \<Rightarrow> http_request \<Rightarrow> exn + response" where
  "portal_500 i rq =
     (if url rq = userdetails_url
      then Inr (json_response 200 ''{\"customer_number\": \"c1\"}''
                  (PDict [(PStr ''customer_number'', PStr ''c1'')]))
      else Inr (json_response 500 ''Internal Server Error'' PNone))"


text \<open>A login transcript: the probe answers 401 with state and nonce, the authorize step
  lands on the login page, the credential POST answers 200, and the user details are
  the given body.\<close>

definition login_response :: "int \<Rightarrow> string \<Rightarrow> string \<Rightarrow> response" where
  "login_response status body landed =
     \<lparr> status_code = status, resp_text = body, resp_json = None, resp_url = landed,
       set_cookies = [(''TOKEN-XSRF'', ''t0ken'')] \<rparr>"

definition portal_login :: "pyval \<Rightarrow> nat \<Rightarrow> http_request \<Rightarrow> exn + response" where
  "portal_login details i rq =
     (if i = 0 then
        Inr (login_response 401 ''st4te,n0nce'' ''https://api.prd.telenet.be/ocapi/oauth/userdetails'')
      else if i = 1 then
        Inr (login_response 200 ''<html>'' ''https://login.prd.telenet.be/openid/login'')
      else if i = 2 then
        Inr (login_response 200 ''<html>'' ''https://www2.telenet.be/residential/nl/mytelenet'')
      else Inr (json_response 200 ''{...}'' details))"

text \<open>Products of the examples.\<close>

definition telephone_product :: TelenetProduct where
  "telephone_product =
     TelenetProduct_default\<lparr>
       product_identifier := PStr ''t1'', product_type := PStr ''telephone'',
       product_description_key := PStr ''telephone'', product_plan_identifier := PStr ''t1'',
       product_plan_label := PStr ''Telephone'', product_name := PStr ''t1'',
       product_key := PStr ''t1 telephone product'', product_state := PStr ''Telephone'',
       product_specurl := PStr ''https://api.prd.telenet.be/specs/t1'' \<rparr>"




text \<open>A portal whose session is valid and that answers every other request with 404.\<close>

definition portal_404 :: "nat \<Rightarrow> http_request \<Rightarrow> exn + response" where
  "portal_404 i rq =
     (if url rq = userdetails_url
      then Inr (json_response 200 ''{\"customer_number\": \"c1\"}''
                  (PDict [(PStr ''customer_number'', PStr ''c1'')]))
      else Inr (json_response 404 ''{\"message\": \"not found\"}''
                  (PDict [(PStr ''message'', PStr ''not found'')])))"







text \<open>A portal whose session is valid, that serves the spec sheets of the telephone and
  the internet product and answers every other request with 404.\<close>

definition spec_sheet :: pyval where
  "spec_sheet = PDict [(PStr ''product'', PDict [(PStr ''localizedcontent'', PList [])])]"




text \<open>A standalone mobile line (its plan identifier is its identifier) with SMS and voice
  in use, and a portal that serves its spec sheet and its usage.\<close>

definition mobile_product :: TelenetProduct where
  "mobile_product =
     TelenetProduct_default\<lparr>
       product_identifier := PStr ''m1'', product_type := PStr ''mobile'',
       product_description_key := PStr ''mobile'', product_plan_identifier := PStr ''m1'',
       product_plan_label := PStr ''Mobile'', product_name := PStr ''m1'',
       product_key := PStr ''m1 mobile product'', product_state := PStr ''Mobile'',
       product_specurl := PStr ''https://api.prd.telenet.be/specs/m1'' \<rparr>"

definition bucket :: "int \<Rightarrow> int \<Rightarrow> int \<Rightarrow> string \<Rightarrow> pyval" where
  "bucket start_units remaining_units used_units unit_type =
     PDict [(PStr ''startUnits'', PInt start_units), (PStr ''remainingUnits'', PInt remaining_units),
            (PStr ''usedUnits'', PInt used_units), (PStr ''unitType'', PStr unit_type)]"

definition mobile_usage_m1 :: pyval where
  "mobile_usage_m1 =
     PDict [(PStr ''nextBillingDate'', PStr ''2023-02-01T00:00:00.0+01:00''),
            (PStr ''outOfBundle'', PDict [(PStr ''usedUnits'', PInt 0)]),
            (PStr ''total'',
             PDict [(PStr ''data'', bucket 0 0 0 ''GB''),
                    (PStr ''text'', bucket 100 90 10 ''SMS''),
                    (PStr ''voice'', bucket 60 45 15 ''MIN'')])]"

definition usages_m1 :: pyval where
  "usages_m1 = PStr ''https://api.prd.telenet.be/ocapi/public/api/mobile-service/v3/mobilesubscriptions/m1/usages''"

definition portal_mobile :: "nat \<Rightarrow> http_request \<Rightarrow> exn + response" where
  "portal_mobile i rq =
     (if url rq = product_specurl mobile_product
      then Inr (json_response 200 ''{\"product\": {\"localizedcontent\": []}}'' spec_sheet)
      else if url rq = usages_m1
      then Inr (json_response 200 ''{\"total\": ...}'' mobile_usage_m1)
      else portal_404 i rq)"

section \<open>Properties\<close>

subsection \<open>The session through an exchange\<close>

lemma environment_received [simp]: "environment (received c rq r) = environment c"
  by (simp add: received_def)

lemma environment_mirror_token [simp]: "environment (mirror_token c) = environment c"
  by (simp add: mirror_token_def)

lemma sent_mirror_token [simp]: "sent (mirror_token c) = sent c"
  by (simp add: mirror_token_def)

lemma sent_received [simp]: "sent (received c rq r) = sent c @ [rq]"
  by (simp add: received_def)

lemma username_received [simp]: "username (received c rq r) = username c"
  by (simp add: received_def)

lemma login_already_authenticated:
  assumes "transport E (length (sent c))
             (make_request (PStr (ocapi (environment c) @ ''/oauth/userdetails'')) PNone) = Inr r"
    and "status_code r = 200" and "resp_json r = Some j"
  shows "login E (Suc n) c =
           Some (Inr j, mirror_token (received c
             (make_request (PStr (ocapi (environment c) @ ''/oauth/userdetails'')) PNone) r))"
  using assms by (simp add: login_def login_with_def login_tokens.simps)

subsection \<open>C1: the retry budget\<close>

text \<open>
  C1 claims that the re-login-and-retry path of \<open>request\<close> is bounded by the retry budget
  and that the HTTP error surfaces once the budget is spent. The code decrements
  \<open>connection_retry_left\<close> on every retry but tests it only in the fast-fail condition,
  which also needs \<open>not retrying\<close> and a status other than 401, 403 and 500; a retry is
  never stopped by it. Against a portal that keeps the session valid (the probe of
  \<open>login\<close> answers 200) and answers one endpoint with 500 every time, \<open>request\<close> for that
  endpoint returns at no call depth: it logs in and retries without end, whatever the
  budget.
\<close>

theorem request_retries_without_bound:
  assumes fail: "\<And>i. transport E i (make_request u d) = Inr r" "status_code r = 500"
    and probe: "\<And>i. transport E i (make_request (PStr (b @ ''/oauth/userdetails'')) PNone) = Inr ok"
       "status_code ok = 200" "resp_json ok = Some j"
    and base: "ocapi (environment c) = b"
  shows "request E n u caller d (Some 200) retrying connection_retry_left c = None"
  using base
proof (induction n arbitrary: c retrying connection_retry_left)
  case 0
  show ?case by simp
next
  case (Suc n)
  let ?c1 = "received c (make_request u d) r"
  have l: "login_with E (request E n) ?c1 = None
      \<or> (\<exists>c2. login_with E (request E n) ?c1 = Some (Inr j, c2) \<and> ocapi (environment c2) = b)"
  proof (cases n)
    case 0
    then show ?thesis by (simp add: login_with_def login_tokens.simps)
  next
    case (Suc m)
    have "login E (Suc m) ?c1 =
        Some (Inr j, mirror_token (received ?c1
          (make_request (PStr (ocapi (environment ?c1) @ ''/oauth/userdetails'')) PNone) ok))"
      by (rule login_already_authenticated) (simp_all add: probe Suc.prems)
    then show ?thesis using Suc Suc.prems by (simp add: login_def)
  qed
  have step: "request E (Suc n) u caller d (Some 200) retrying connection_retry_left c =
     (case login_with E (request E n) ?c1 of
        None \<Rightarrow> None
      | Some (Inl e, c2) \<Rightarrow> Some (Inl e, c2)
      | Some (Inr ud, c2) \<Rightarrow>
          (case request E n u caller d (Some 200) True (connection_retry_left - 1) c2 of
             None \<Rightarrow> None
           | Some (Inl e, c3) \<Rightarrow> Some (Inl e, c3)
           | Some (Inr r', c3) \<Rightarrow> Some (Inr r', mirror_token c3)))"
    by (simp add: fail)
  from l show ?case
  proof
    assume "login_with E (request E n) ?c1 = None"
    then show ?thesis unfolding step by simp
  next
    assume "\<exists>c2. login_with E (request E n) ?c1 = Some (Inr j, c2) \<and> ocapi (environment c2) = b"
    then obtain c2 where c2: "login_with E (request E n) ?c1 = Some (Inr j, c2)"
      "ocapi (environment c2) = b" by blast
    have "request E n u caller d (Some 200) True (connection_retry_left - 1) c2 = None"
      by (rule Suc.IH) (rule c2(2))
    then show ?thesis unfolding step by (simp add: c2)
  qed
qed

theorem request_retries_without_bound_witness:
  "CONNECTION_RETRY (example_env\<lparr> transport := portal_500 \<rparr>) = 3
   \<and> request (example_env\<lparr> transport := portal_500 \<rparr>) 1000 modems_url ''[TelenetClient|modems]''
       PNone (Some 200) False 3 example_client = None"
  using request_retries_without_bound [of "example_env\<lparr> transport := portal_500 \<rparr>"
      modems_url PNone "json_response 500 ''Internal Server Error'' PNone"
      "''https://api.prd.telenet.be/ocapi''"
      "json_response 200 ''{\"customer_number\": \"c1\"}'' (PDict [(PStr ''customer_number'', PStr ''c1'')])"
      "PDict [(PStr ''customer_number'', PStr ''c1'')]" example_client 1000
      "''[TelenetClient|modems]''" False 3]
  by (simp add: example_env_def portal_500_def make_request_def json_response_def
      userdetails_url_def modems_url_def example_client_def)

subsection \<open>C2: a 403 that was not expected\<close>




subsection \<open>C6: the user details decide the login\<close>

lemma user_details_mirror_token [simp]: "user_details (mirror_token c) = user_details c"
  by (simp add: mirror_token_def)
lemma user_details_received [simp]: "user_details (received c rq r) = user_details c"
  by (simp add: received_def)
lemma password_received [simp]: "password (received c rq r) = password c"
  by (simp add: received_def)
lemma username_mirror_token [simp]: "username (mirror_token c) = username c"
  by (simp add: mirror_token_def)
lemma password_mirror_token [simp]: "password (mirror_token c) = password c"
  by (simp add: mirror_token_def)

text \<open>
  C6: in \<open>login\<close>, once the probe has given state and nonce, the authorize step has
  landed on the login page and the credential POST has answered 200 without an
  authentication error, the user details are fetched again; a 200 body without the field
  \<open>customer_number\<close> raises BadCredentialsException and leaves \<open>user_details\<close> as it
  was, a body with the field is stored in \<open>user_details\<close> and returned.
\<close>

theorem login_customer_number:
  assumes probe: "transport E (length (sent c))
        (make_request (PStr (ocapi (environment c) @ ''/oauth/userdetails'')) PNone) = Inr rp"
      "status_code rp = 401 \<or> status_code rp = 403"
      "split_max CHR '','' 2 (resp_text rp) = [state, nonce]" "0 \<le> CONNECTION_RETRY E"
    and authorize: "transport E (length (sent c) + 1)
        (make_request (PStr (authorize_url (openid (environment c)) state nonce)) PNone) = Inr ra"
      "status_code ra = 200" "contains ''openid/login'' (resp_url ra)"
    and credentials: "transport E (length (sent c) + 2)
        (make_request (PStr (openid (environment c) @ ''/login.do''))
           (PDict [(PStr ''j_username'', username c), (PStr ''j_password'', password c),
                   (PStr ''rememberme'', PBool True)])) = Inr rc"
      "status_code rc = 200" "\<not> contains ''authentication_error'' (resp_url rc)"
    and details: "transport E (length (sent c) + 3)
        (make_request (PStr ''https://api.prd.telenet.be/ocapi/oauth/userdetails'') PNone) = Inr rd"
      "status_code rd = 200" "resp_json rd = Some (PDict ud)"
  shows "\<exists>c'. login E (Suc n) c =
            Some (if dict_get ud (PStr ''customer_number'') = None
                  then Inl (BadCredentialsException ''HTTP 200 Missing customer number'')
                  else Inr (PDict ud), c')
          \<and> user_details c' =
              (if dict_get ud (PStr ''customer_number'') = None then user_details c else PDict ud)"
proof -
  have s200: "string_of_int 200 = ''200''"
    by (simp add: string_of_int_def string_of_nat.simps digit_char_def)
  show ?thesis
    using assms
    by (auto simp add: login_def login_with_def login_tokens.simps login_authorize_def
        login_credentials_def login_user_details_def py_contains_def s200
        numeral_3_eq_3)
qed

theorem login_customer_number_witness:
  "(\<exists>c'. login (example_env\<lparr> transport := portal_login (PDict [(PStr ''first_name'', PStr ''An'')]) \<rparr>)
            (Suc 0) example_client
          = Some (Inl (BadCredentialsException ''HTTP 200 Missing customer number''), c')
        \<and> user_details c' = PDict [])
   \<and> (\<exists>c'. login (example_env\<lparr> transport := portal_login (PDict [(PStr ''customer_number'', PStr ''c1'')]) \<rparr>)
            (Suc 0) example_client
          = Some (Inr (PDict [(PStr ''customer_number'', PStr ''c1'')]), c')
        \<and> user_details c' = PDict [(PStr ''customer_number'', PStr ''c1'')])"
proof -
  have s: "split_max CHR '','' 2 ''st4te,n0nce'' = [''st4te'', ''n0nce'']"
    by (simp add: numeral_2_eq_2)
  have a: "\<exists>c'. login (example_env\<lparr> transport := portal_login (PDict [(PStr ''first_name'', PStr ''An'')]) \<rparr>)
            (Suc 0) example_client
          = Some (if dict_get [(PStr ''first_name'', PStr ''An'')] (PStr ''customer_number'') = None
                  then Inl (BadCredentialsException ''HTTP 200 Missing customer number'')
                  else Inr (PDict [(PStr ''first_name'', PStr ''An'')]), c')
        \<and> user_details c' =
              (if dict_get [(PStr ''first_name'', PStr ''An'')] (PStr ''customer_number'') = None
               then user_details example_client else PDict [(PStr ''first_name'', PStr ''An'')])"
    by (rule login_customer_number [where state = "''st4te''" and nonce = "''n0nce''"
          and rp = "login_response 401 ''st4te,n0nce'' ''https://api.prd.telenet.be/ocapi/oauth/userdetails''"
          and ra = "login_response 200 ''<html>'' ''https://login.prd.telenet.be/openid/login''"
          and rc = "login_response 200 ''<html>'' ''https://www2.telenet.be/residential/nl/mytelenet''"
          and c = example_client
          and rd = "json_response 200 ''{...}'' (PDict [(PStr ''first_name'', PStr ''An'')])"])
       (simp_all add: example_env_def portal_login_def example_client_def s login_response_def
          json_response_def)
  have b: "\<exists>c'. login (example_env\<lparr> transport := portal_login (PDict [(PStr ''customer_number'', PStr ''c1'')]) \<rparr>)
            (Suc 0) example_client
          = Some (if dict_get [(PStr ''customer_number'', PStr ''c1'')] (PStr ''customer_number'') = None
                  then Inl (BadCredentialsException ''HTTP 200 Missing customer number'')
                  else Inr (PDict [(PStr ''customer_number'', PStr ''c1'')]), c')
        \<and> user_details c' =
              (if dict_get [(PStr ''customer_number'', PStr ''c1'')] (PStr ''customer_number'') = None
               then user_details example_client else PDict [(PStr ''customer_number'', PStr ''c1'')])"
    by (rule login_customer_number [where state = "''st4te''" and nonce = "''n0nce''"
          and rp = "login_response 401 ''st4te,n0nce'' ''https://api.prd.telenet.be/ocapi/oauth/userdetails''"
          and ra = "login_response 200 ''<html>'' ''https://login.prd.telenet.be/openid/login''"
          and rc = "login_response 200 ''<html>'' ''https://www2.telenet.be/residential/nl/mytelenet''"
          and c = example_client
          and rd = "json_response 200 ''{...}'' (PDict [(PStr ''customer_number'', PStr ''c1'')])"])
       (simp_all add: example_env_def portal_login_def example_client_def s login_response_def
          json_response_def)
  from a b show ?thesis by (simp add: example_client_def)
qed

subsection \<open>Dicts\<close>






subsection \<open>C5: a second registration\<close>

text \<open>
  C5: \<open>add_product\<close> for a product whose identifier is already a key of the product table
  returns \<open>False\<close> and leaves the whole state as it was: the table has the same entries,
  so the same count and the first-registered record with every field, and no request was
  sent.
\<close>

theorem add_product_duplicate:
  assumes "product = PDict kvs"
    and "hashable (dget kvs ''identifier'')"
    and "dict_get (all_products c) (dget kvs ''identifier'') = Some registered"
  shows "add_product E n product plan_identifier state_prop plan_label c = Some (Inr False, c)"
  using assms by (simp add: add_product_def ret_def)

theorem add_product_duplicate_witness:
  "add_product example_env 5
     (PDict [(PStr ''identifier'', PStr ''t1''), (PStr ''productType'', PStr ''mobile''),
             (PStr ''label'', PStr ''Another''), (PStr ''specurl'', PStr ''https://api.prd.telenet.be/specs/x'')])
     (PStr ''p9'') ''label'' (PStr ''Plan nine'')
     (example_client\<lparr> all_products := [(PStr ''t1'', telephone_product)] \<rparr>)
   = Some (Inr False, example_client\<lparr> all_products := [(PStr ''t1'', telephone_product)] \<rparr>)"
  using add_product_duplicate [where E = example_env and n = 5
      and kvs = "[(PStr ''identifier'', PStr ''t1''), (PStr ''productType'', PStr ''mobile''),
             (PStr ''label'', PStr ''Another''), (PStr ''specurl'', PStr ''https://api.prd.telenet.be/specs/x'')]"
      and c = "example_client\<lparr> all_products := [(PStr ''t1'', telephone_product)] \<rparr>"
      and registered = telephone_product and plan_identifier = "PStr ''p9''"
      and state_prop = "''label''" and plan_label = "PStr ''Plan nine''"]
  by (simp add: dget_def hashable_def)

subsection \<open>C10: the address cache\<close>




subsection \<open>C8: the Wi-Fi QR sensor\<close>




subsection \<open>C9: the attribute projection\<close>






lemma source_record_selected:
  assumes "product_subscription_info product = PDict sub" "hashable (product_identifier product)"
  shows "bind_exn (py_len (product_subscription_info product)) (\<lambda>l.
           if 0 < l then Inr (product_subscription_info product)
           else if hashable (product_identifier product)
           then Inr (case dict_get plans (product_identifier product) of
                       None \<Rightarrow> PNone | Some plan \<Rightarrow> plan)
           else Inl TypeError) = Inr (source_record plans product)"
  using assms by (cases sub) (simp_all add: bind_exn_def py_len_def source_record_def)






subsection \<open>C4: no products\<close>




subsection \<open>C7: a soft failure during the synthesis\<close>

text \<open>
  The internet branch tests the results of \<open>product_usage\<close> and \<open>modems\<close> for the sentinel
  and skips the product; it does not test the result of \<open>bill_cycles\<close>, and reads
  \<open>start_date\<close> from it.
\<close>

lemma internet_sensors_without_usage:
  assumes "bill_cycles E n (product_type p) (product_identifier p) 2 c = Some (Inr (PDict b), c1)"
    and "product_usage E n (product_type p) (product_identifier p) (dget b ''start_date'')
           (dget b ''end_date'') c1 = Some (Inr (PBool False), c2)"
  shows "internet_sensors E n p specs new_products c = Some (Inr new_products, c2)"
  using assms
  by (simp add: internet_sensors_def bind_run_def pure_run_def py_get_def dget_def ret_def)

lemma internet_sensors_without_bill_cycles:
  assumes "bill_cycles E n (product_type p) (product_identifier p) 2 c = Some (Inr (PBool False), c1)"
  shows "internet_sensors E n p specs new_products c = Some (Inl AttributeError, c1)"
  using assms by (simp add: internet_sensors_def bind_run_def pure_run_def py_get_def)


subsection \<open>C3: the keys of the derived sensors\<close>




text \<open>The pass over a table with that line: the entry under the \<open>sms\<close> key is the voice
  sensor, and the table has no SMS sensor.\<close>

lemma create_extra_sensors_standalone_mobile:
  "map_option (\<lambda>(r, c). (r, map (\<lambda>(key, p). (key, product_description_key p)) (all_products c)))
     (create_extra_sensors (example_env\<lparr> transport := portal_mobile \<rparr>) (Suc 0)
        (example_client\<lparr> all_products := [(PStr ''m1'', mobile_product)] \<rparr>))
   = Some (Inr True,
           [(PStr ''m1'', PStr ''mobile''),
            (PStr ''m1 mobile out of bundle'', PStr ''euro''),
            (PStr ''m1 mobile sms'', PStr ''mobile_voice''),
            (PStr ''None current invoice'', PStr ''euro''),
            (PStr ''None user details'', PStr ''user'')])"
  by (simp add: create_extra_sensors_def bind_run_def product_sensors_def product_details_def
      example_env_def example_client_def portal_mobile_def portal_404_def mobile_product_def
      TelenetProduct_default_def make_request_def
      json_response_def received_def mirror_token_def dict_update_def false_or_json_def
      json_of_def ret_def pure_run_def py_get_def spec_sheet_def bind_exn_def price_sensor_def
      add_cost_def py_add_def int_value_def is_number_def raise_exn_def py_or_dict_def
      py_str_def userdetails_url_def usages_m1_def mobile_standalone_sensors_def
      mobile_usage_def mobile_usage_m1_def bucket_def out_of_bundle_def dotted_path_def
      create_extra_attributes_list_def total_sensor_def any_units_def py_int_def
      total_data_sensor_def total_text_sensor_def total_voice_sensor_def
      construct_extra_sensor_def Let_def add_sensor_def dget_def py_lower_def
      account_sensors_def modify_def)

end
